theory Spec2Isabelle
  imports Complex_Main "HOL-Library.Sublist" "HOL-Library.Word"
begin

section \<open>Layer descriptors and the models the notebooks build\<close>

text \<open>
  Every model of the notebooks is a call \<^verbatim>\<open>keras.Sequential([...])\<close> on a Python list of
  layer constructor calls. A constructor call is data: the layer kind and the arguments
  the cell writes. \<^verbatim>\<open>layers.Dense(512, activation='relu', input_shape=[11])\<close> gives the
  unit count (first positional argument, or \<^verbatim>\<open>units=\<close>), the activation name when the
  cell names one and the input shape when the cell gives one;
  \<^verbatim>\<open>layers.Dropout(0.3)\<close> gives a rate; \<^verbatim>\<open>layers.BatchNormalization()\<close> has no
  argument; \<^verbatim>\<open>layers.Activation('relu')\<close> has the activation name only.
\<close>

datatype layer =
    Dense nat "string option" "nat list option"
  | Dropout rat
  | BatchNormalization
  | Activation string

fun layer_units :: "layer \<Rightarrow> nat option" where
  "layer_units (Dense u a s) = Some u"
| "layer_units (Dropout r) = None"
| "layer_units BatchNormalization = None"
| "layer_units (Activation a) = None"

fun layer_activation :: "layer \<Rightarrow> string option" where
  "layer_activation (Dense u a s) = a"
| "layer_activation (Dropout r) = None"
| "layer_activation BatchNormalization = None"
| "layer_activation (Activation a) = Some a"

fun layer_input_shape :: "layer \<Rightarrow> nat list option" where
  "layer_input_shape (Dense u a s) = s"
| "layer_input_shape (Dropout r) = None"
| "layer_input_shape BatchNormalization = None"
| "layer_input_shape (Activation a) = None"

text \<open>\<^verbatim>\<open>single_neuron.ipynb\<close>: one linear unit on three inputs.\<close>

definition single_neuron_model :: "layer list" where
  "single_neuron_model = [Dense 1 None (Some [3])]"

text \<open>\<^verbatim>\<open>deep_neural_networks.ipynb\<close>, first notebook: two hidden ReLU layers, a linear output.\<close>

definition dnn_model :: "layer list" where
  "dnn_model =
    [Dense 4 (Some ''relu'') (Some [2]),
     Dense 3 (Some ''relu'') None,
     Dense 1 None None]"

text \<open>
  \<^verbatim>\<open>deep_neural_networks.ipynb\<close>, second notebook (dropout and batch normalization): the
  snippet \<^verbatim>\<open>keras.Sequential([layers.Dropout(rate=0.3), layers.Dense(16)])\<close>, the two
  batch normalization snippets (the layers of their lines, passed to no constructor), and
  the model that is summarised, compiled and fitted.
\<close>

definition dropout_snippet :: "layer list" where
  "dropout_snippet = [Dropout (3 / 10), Dense 16 None None]"

definition batchnorm_after_snippet :: "layer list" where
  "batchnorm_after_snippet = [Dense 16 (Some ''relu'') None, BatchNormalization]"

definition batchnorm_between_snippet :: "layer list" where
  "batchnorm_between_snippet = [Dense 16 None None, BatchNormalization, Activation ''relu'']"

definition dropout_model :: "layer list" where
  "dropout_model =
    [Dense 1024 (Some ''relu'') (Some [11]),
     Dropout (3 / 10),
     BatchNormalization,
     Dense 1024 (Some ''relu'') None,
     Dropout (3 / 10),
     BatchNormalization,
     Dense 1024 (Some ''relu'') None,
     Dropout (3 / 10),
     BatchNormalization,
     Dense 1 None None]"

text \<open>
  The overfitting and early stopping notebook: the three capacity examples
  \<^verbatim>\<open>model\<close>, \<^verbatim>\<open>wider\<close>, \<^verbatim>\<open>deeper\<close>, and the model fitted with early stopping.
\<close>

definition capacity_model :: "layer list" where
  "capacity_model = [Dense 16 (Some ''relu'') None, Dense 1 None None]"

definition wider :: "layer list" where
  "wider = [Dense 32 (Some ''relu'') None, Dense 1 None None]"

definition deeper :: "layer list" where
  "deeper =
    [Dense 16 (Some ''relu'') None,
     Dense 16 (Some ''relu'') None,
     Dense 1 None None]"

definition early_stopping_model :: "layer list" where
  "early_stopping_model =
    [Dense 512 (Some ''relu'') (Some [11]),
     Dense 512 (Some ''relu'') None,
     Dense 512 (Some ''relu'') None,
     Dense 1 None None]"

text \<open>Every list passed to \<^verbatim>\<open>keras.Sequential\<close> in a code cell, in the order of the files.\<close>

definition all_sequentials :: "layer list list" where
  "all_sequentials =
    [single_neuron_model, dnn_model, dropout_snippet, dropout_model,
     capacity_model, wider, deeper, early_stopping_model]"

text \<open>
  What the entries of those lists are: a dense layer with a positive unit count and at
  most the activation name \<^verbatim>\<open>'relu'\<close>, a dropout layer with a rate strictly between 0
  and 1 and no unit count, or a batch normalization layer with no argument.
\<close>

fun sequential_entry :: "layer \<Rightarrow> bool" where
  "sequential_entry (Dense u a s) = (0 < u \<and> (a = None \<or> a = Some ''relu''))"
| "sequential_entry (Dropout r) = (0 < r \<and> r < 1)"
| "sequential_entry BatchNormalization = True"
| "sequential_entry (Activation a) = False"

section \<open>Numbers, frames and the pandas operations the cells call\<close>

text \<open>
  A column of a frame is an array of one type: \<^verbatim>\<open>int64\<close> (what \<^verbatim>\<open>read_csv\<close> infers
  for a column of whole numbers, such as \<^verbatim>\<open>quality\<close>) or \<^verbatim>\<open>float64\<close>. An \<^verbatim>\<open>int64\<close>
  is a 64-bit word read as a signed number, and its arithmetic wraps around silently.
  A \<^verbatim>\<open>float64\<close> is a finite value, an infinity or \<^verbatim>\<open>NaN\<close>, which is also the missing
  value; pandas returns the special values where Python's own division would raise.

  Which finite values a \<^verbatim>\<open>float64\<close> can hold, and so how an exact result is rounded,
  is the floating-point unit's business: its rounding function and its largest finite
  value are parameters. An exact result of zero is zero, and a rounded result beyond
  the largest finite value is an infinity. An \<^verbatim>\<open>int64\<close> converted to \<^verbatim>\<open>float64\<close> is
  rounded and never overflows. The sign of a zero is not modelled.
\<close>

record fpu =
  rnd :: "rat \<Rightarrow> rat"
  max_float :: rat

datatype float = Fin rat | PosInf | NegInf | NaN

datatype num = I64 "64 word" | F64 float

definition fl :: "'a fpu_scheme \<Rightarrow> rat \<Rightarrow> float" where
  "fl F r =
     (if r = 0 then Fin 0
      else if max_float F < rnd F r then PosInf
      else if rnd F r < - max_float F then NegInf
      else Fin (rnd F r))"

fun to_float :: "'a fpu_scheme \<Rightarrow> num \<Rightarrow> float" where
  "to_float F (I64 i) = Fin (if i = 0 then 0 else rnd F (of_int (sint i)))"
| "to_float F (F64 x) = x"

text \<open>
  What IEEE 754 guarantees of every rounding mode, and all that the results below use
  of the floating-point unit: rounding keeps the order, zero and one are values of the
  format, and one is not beyond the largest finite value.
\<close>

definition ieee :: "'a fpu_scheme \<Rightarrow> bool" where
  "ieee F = (mono (rnd F) \<and> rnd F 0 = 0 \<and> rnd F 1 = 1 \<and> 1 \<le> max_float F)"

fun fsub_f :: "'a fpu_scheme \<Rightarrow> float \<Rightarrow> float \<Rightarrow> float" where
  "fsub_f F NaN y = NaN"
| "fsub_f F x NaN = NaN"
| "fsub_f F (Fin a) (Fin b) = fl F (a - b)"
| "fsub_f F (Fin a) PosInf = NegInf"
| "fsub_f F (Fin a) NegInf = PosInf"
| "fsub_f F PosInf PosInf = NaN"
| "fsub_f F PosInf y = PosInf"
| "fsub_f F NegInf NegInf = NaN"
| "fsub_f F NegInf y = NegInf"

fun fdiv_f :: "'a fpu_scheme \<Rightarrow> float \<Rightarrow> float \<Rightarrow> float" where
  "fdiv_f F NaN y = NaN"
| "fdiv_f F x NaN = NaN"
| "fdiv_f F (Fin a) (Fin b) =
     (if b \<noteq> 0 then fl F (a / b)
      else if 0 < a then PosInf
      else if a < 0 then NegInf
      else NaN)"
| "fdiv_f F (Fin a) y = Fin 0"
| "fdiv_f F PosInf (Fin b) = (if 0 \<le> b then PosInf else NegInf)"
| "fdiv_f F NegInf (Fin b) = (if 0 \<le> b then NegInf else PosInf)"
| "fdiv_f F x y = NaN"

text \<open>
  Subtraction of two \<^verbatim>\<open>int64\<close> values stays in \<^verbatim>\<open>int64\<close> and wraps; with a
  \<^verbatim>\<open>float64\<close> on either side the other side is converted first. The division \<^verbatim>\<open>/\<close>
  is true division: both sides are converted and the result is a \<^verbatim>\<open>float64\<close>.
\<close>

fun fsub :: "'a fpu_scheme \<Rightarrow> num \<Rightarrow> num \<Rightarrow> num" where
  "fsub F (I64 a) (I64 b) = I64 (a - b)"
| "fsub F x y = F64 (fsub_f F (to_float F x) (to_float F y))"

definition fdiv :: "'a fpu_scheme \<Rightarrow> num \<Rightarrow> num \<Rightarrow> float" where
  "fdiv F x y = fdiv_f F (to_float F x) (to_float F y)"

text \<open>
  \<^verbatim>\<open>max\<close> and \<^verbatim>\<open>min\<close> of pandas skip missing values (\<^verbatim>\<open>skipna=True\<close>): \<^verbatim>\<open>NaN\<close> is
  neutral, and the result over no value at all is \<^verbatim>\<open>NaN\<close>.
\<close>

fun fmax_f :: "float \<Rightarrow> float \<Rightarrow> float" where
  "fmax_f NaN y = y"
| "fmax_f x NaN = x"
| "fmax_f PosInf y = PosInf"
| "fmax_f x PosInf = PosInf"
| "fmax_f NegInf y = y"
| "fmax_f x NegInf = x"
| "fmax_f (Fin a) (Fin b) = Fin (max a b)"

fun fmin_f :: "float \<Rightarrow> float \<Rightarrow> float" where
  "fmin_f NaN y = y"
| "fmin_f x NaN = x"
| "fmin_f NegInf y = NegInf"
| "fmin_f x NegInf = NegInf"
| "fmin_f PosInf y = y"
| "fmin_f x PosInf = x"
| "fmin_f (Fin a) (Fin b) = Fin (min a b)"

definition wmax :: "64 word \<Rightarrow> 64 word \<Rightarrow> 64 word" where
  "wmax a b = (if sint a \<le> sint b then b else a)"

definition wmin :: "64 word \<Rightarrow> 64 word \<Rightarrow> 64 word" where
  "wmin a b = (if sint b \<le> sint a then b else a)"

text \<open>Comparison: every comparison with \<^verbatim>\<open>NaN\<close> is false.\<close>

fun fless_f :: "float \<Rightarrow> float \<Rightarrow> bool" where
  "fless_f NaN y = False"
| "fless_f x NaN = False"
| "fless_f (Fin a) (Fin b) = (a < b)"
| "fless_f x NegInf = False"
| "fless_f NegInf y = True"
| "fless_f PosInf y = False"
| "fless_f x PosInf = True"

fun fless :: "'a fpu_scheme \<Rightarrow> num \<Rightarrow> num \<Rightarrow> bool" where
  "fless F (I64 a) (I64 b) = (sint a < sint b)"
| "fless F x y = fless_f (to_float F x) (to_float F y)"

fun unit_interval :: "float \<Rightarrow> bool" where
  "unit_interval (Fin a) = (0 \<le> a \<and> a \<le> 1)"
| "unit_interval x = False"

fun is_finite :: "float \<Rightarrow> bool" where
  "is_finite (Fin a) = True"
| "is_finite x = False"

fun is_int :: "num \<Rightarrow> bool" where
  "is_int (I64 i) = True"
| "is_int (F64 x) = False"

text \<open>A number that is finite and greater than zero, and a number that is zero.\<close>

fun positive :: "num \<Rightarrow> bool" where
  "positive (I64 i) = (0 < sint i)"
| "positive (F64 (Fin a)) = (0 < a)"
| "positive (F64 x) = False"


text \<open>The cells of a column, and the operations on a column that do not look at its type.\<close>

datatype column_data = IntCol "64 word list" | FltCol "float list"

fun clen :: "column_data \<Rightarrow> nat" where
  "clen (IntCol ns) = length ns"
| "clen (FltCol xs) = length xs"

fun col_take :: "nat list \<Rightarrow> column_data \<Rightarrow> column_data" where
  "col_take locs (IntCol ns) = IntCol (map (\<lambda>i. ns ! i) locs)"
| "col_take locs (FltCol xs) = FltCol (map (\<lambda>i. xs ! i) locs)"

definition keep_rows :: "(nat \<Rightarrow> bool) \<Rightarrow> nat list \<Rightarrow> 'a list \<Rightarrow> 'a list" where
  "keep_rows p ix vs = map snd (filter (\<lambda>lv. p (fst lv)) (zip ix vs))"

fun col_keep :: "(nat \<Rightarrow> bool) \<Rightarrow> nat list \<Rightarrow> column_data \<Rightarrow> column_data" where
  "col_keep p ix (IntCol ns) = IntCol (keep_rows p ix ns)"
| "col_keep p ix (FltCol xs) = FltCol (keep_rows p ix xs)"

fun col_head :: "nat \<Rightarrow> column_data \<Rightarrow> column_data" where
  "col_head n (IntCol ns) = IntCol (take n ns)"
| "col_head n (FltCol xs) = FltCol (take n xs)"

text \<open>A column without a missing value and without an infinity.\<close>

fun no_missing :: "column_data \<Rightarrow> bool" where
  "no_missing (IntCol ns) = True"
| "no_missing (FltCol xs) = list_all is_finite xs"


text \<open>The maximum and the minimum of a column: of its type, or \<^verbatim>\<open>NaN\<close> when it has no value.\<close>

fun col_max :: "column_data \<Rightarrow> num" where
  "col_max (IntCol []) = F64 NaN"
| "col_max (IntCol (n # ns)) = I64 (fold wmax ns n)"
| "col_max (FltCol xs) = F64 (fold fmax_f xs NaN)"

fun col_min :: "column_data \<Rightarrow> num" where
  "col_min (IntCol []) = F64 NaN"
| "col_min (IntCol (n # ns)) = I64 (fold wmin ns n)"
| "col_min (FltCol xs) = F64 (fold fmin_f xs NaN)"

text \<open>
  A column minus a number and a column divided by a number, as NumPy computes them:
  \<^verbatim>\<open>int64\<close> minus \<^verbatim>\<open>int64\<close> is \<^verbatim>\<open>int64\<close>, everything else is \<^verbatim>\<open>float64\<close>.
\<close>

fun col_sub :: "'a fpu_scheme \<Rightarrow> column_data \<Rightarrow> num \<Rightarrow> column_data" where
  "col_sub F (IntCol ns) (I64 m) = IntCol (map (\<lambda>n. n - m) ns)"
| "col_sub F (IntCol ns) (F64 y) = FltCol (map (\<lambda>n. fsub_f F (to_float F (I64 n)) y) ns)"
| "col_sub F (FltCol xs) m = FltCol (map (\<lambda>x. fsub_f F x (to_float F m)) xs)"

fun col_div :: "'a fpu_scheme \<Rightarrow> column_data \<Rightarrow> num \<Rightarrow> column_data" where
  "col_div F (IntCol ns) m = FltCol (map (\<lambda>n. fdiv F (I64 n) m) ns)"
| "col_div F (FltCol xs) m = FltCol (map (\<lambda>x. fdiv F (F64 x) m) xs)"

text \<open>
  A \<^verbatim>\<open>DataFrame\<close>: the row labels (\<^verbatim>\<open>df.index\<close>) and the columns in order, each a
  label with one cell per row. A \<^verbatim>\<open>Series\<close> over the column labels (what
  \<^verbatim>\<open>df.max(axis=0)\<close> returns) is a list of labelled numbers; a single column
  (\<^verbatim>\<open>df['quality']\<close>) is the row labels with its cells.
\<close>

record dataframe =
  index :: "nat list"
  cols :: "(string \<times> column_data) list"

type_synonym series = "(string \<times> num) list"

type_synonym column = "nat list \<times> column_data"

datatype error =
    FileNotFoundError string
  | ParserError string
  | IndexError
  | KeyError string
  | KeyErrorRows "nat list"
  | NameError string
  | AttributeError string
  | RuntimeError string
  | ValueError string
  | LibraryError string

definition and_then :: "error + 'a \<Rightarrow> ('a \<Rightarrow> error + 'b) \<Rightarrow> error + 'b" where
  "and_then r f = (case r of Inl e \<Rightarrow> Inl e | Inr a \<Rightarrow> f a)"

definition nrows :: "dataframe \<Rightarrow> nat" where
  "nrows df = length (index df)"

definition labels :: "dataframe \<Rightarrow> string list" where
  "labels df = map fst (cols df)"

text \<open>
  \<^verbatim>\<open>df.take(locs)\<close>: the rows at the given positions, in that order, with their labels.
  A position outside the frame raises \<^verbatim>\<open>IndexError\<close>.
\<close>

definition take_rows :: "dataframe \<Rightarrow> nat list \<Rightarrow> error + dataframe" where
  "take_rows df locs =
     (if list_all (\<lambda>i. i < nrows df \<and> list_all (\<lambda>cv. i < clen (snd cv)) (cols df)) locs
      then Inr \<lparr>index = map (\<lambda>i. index df ! i) locs,
                cols = map (\<lambda>cv. (fst cv, col_take locs (snd cv))) (cols df)\<rparr>
      else Inl IndexError)"

text \<open>
  \<^verbatim>\<open>df.drop(labels)\<close> on the rows: every label must be a row label of the frame
  (\<^verbatim>\<open>KeyError\<close> otherwise); the rows that carry one of the labels are removed.
\<close>

definition drop_rows :: "dataframe \<Rightarrow> nat list \<Rightarrow> error + dataframe" where
  "drop_rows df ls =
     (if list_all (\<lambda>l. l \<in> set (index df)) ls
      then Inr \<lparr>index = filter (\<lambda>l. l \<notin> set ls) (index df),
                cols = map (\<lambda>cv. (fst cv, col_keep (\<lambda>l. l \<notin> set ls) (index df) (snd cv))) (cols df)\<rparr>
      else Inl (KeyErrorRows (filter (\<lambda>l. l \<notin> set (index df)) ls)))"

text \<open>\<^verbatim>\<open>df.head(n)\<close>: the first \<open>n\<close> rows.\<close>

definition head :: "dataframe \<Rightarrow> nat \<Rightarrow> dataframe" where
  "head df n = \<lparr>index = take n (index df), cols = map (\<lambda>cv. (fst cv, col_head n (snd cv))) (cols df)\<rparr>"

text \<open>
  \<^verbatim>\<open>df.max(axis=0)\<close> and \<^verbatim>\<open>df.min(axis=0)\<close>: one number per column. A \<^verbatim>\<open>Series\<close> has
  one type too: it is \<^verbatim>\<open>int64\<close> when every entry is, and otherwise every entry is
  converted to \<^verbatim>\<open>float64\<close>.
\<close>

definition as_series :: "'a fpu_scheme \<Rightarrow> series \<Rightarrow> series" where
  "as_series F s =
     (if list_all (\<lambda>cv. is_int (snd cv)) s then s
      else map (\<lambda>cv. (fst cv, F64 (to_float F (snd cv)))) s)"

definition max_axis0 :: "'a fpu_scheme \<Rightarrow> dataframe \<Rightarrow> series" where
  "max_axis0 F df = as_series F (map (\<lambda>cv. (fst cv, col_max (snd cv))) (cols df))"

definition min_axis0 :: "'a fpu_scheme \<Rightarrow> dataframe \<Rightarrow> series" where
  "min_axis0 F df = as_series F (map (\<lambda>cv. (fst cv, col_min (snd cv))) (cols df))"

text \<open>
  Arithmetic aligns on the column labels. A label of the left operand that the right
  operand does not have gives \<^verbatim>\<open>NaN\<close>; a label that only the right operand has gives
  an entry (a column) of \<^verbatim>\<open>NaN\<close> as well. The cells only subtract and divide operands
  with the same labels; the order pandas gives the labels of a union, and the
  conversion of a whole \<^verbatim>\<open>Series\<close> that an alignment with other labels causes, are not
  modelled. Neither is arithmetic on operands with a repeated label: \<^verbatim>\<open>read_csv\<close>
  makes the column labels of a frame distinct.
\<close>

definition at_label :: "series \<Rightarrow> string \<Rightarrow> num" where
  "at_label s c = (case map_of s c of None \<Rightarrow> F64 NaN | Some v \<Rightarrow> v)"

definition series_sub :: "'a fpu_scheme \<Rightarrow> series \<Rightarrow> series \<Rightarrow> series" where
  "series_sub F a b =
     map (\<lambda>cv. (fst cv, fsub F (snd cv) (at_label b (fst cv)))) a
     @ map (\<lambda>cv. (fst cv, F64 NaN)) (filter (\<lambda>cv. fst cv \<notin> set (map fst a)) b)"

definition frame_op :: "(column_data \<Rightarrow> num \<Rightarrow> column_data) \<Rightarrow> dataframe \<Rightarrow> series \<Rightarrow> dataframe" where
  "frame_op f df s =
     \<lparr>index = index df,
      cols = map (\<lambda>cv. (fst cv, f (snd cv) (at_label s (fst cv)))) (cols df)
             @ map (\<lambda>cv. (fst cv, FltCol (replicate (nrows df) NaN)))
                 (filter (\<lambda>cv. fst cv \<notin> set (labels df)) s)\<rparr>"

text \<open>The expression \<^verbatim>\<open>(df - min_) / (max_ - min_)\<close> of the data preparation cell, with \<open>mn\<close> for \<^verbatim>\<open>min_\<close> and \<open>mx\<close> for \<^verbatim>\<open>max_\<close>.\<close>

definition rescale :: "'a fpu_scheme \<Rightarrow> dataframe \<Rightarrow> series \<Rightarrow> series \<Rightarrow> dataframe" where
  "rescale F df mn mx = frame_op (col_div F) (frame_op (col_sub F) df mn) (series_sub F mx mn)"

text \<open>
  \<^verbatim>\<open>df.drop(c, axis=1)\<close> removes the columns labelled \<open>c\<close> and raises \<^verbatim>\<open>KeyError\<close>
  when there is none; \<^verbatim>\<open>df[c]\<close> is the column labelled \<open>c\<close> and raises
  \<^verbatim>\<open>KeyError\<close> when there is none.
\<close>

definition drop_column :: "dataframe \<Rightarrow> string \<Rightarrow> error + dataframe" where
  "drop_column df c =
     (if c \<in> set (labels df)
      then Inr (df\<lparr>cols := filter (\<lambda>cv. fst cv \<noteq> c) (cols df)\<rparr>)
      else Inl (KeyError c))"

definition get_column :: "dataframe \<Rightarrow> string \<Rightarrow> error + column" where
  "get_column df c =
     (case map_of (cols df) c of
        None \<Rightarrow> Inl (KeyError c)
      | Some vs \<Rightarrow> Inr (index df, vs))"

section \<open>The values of a notebook session and the external libraries\<close>

text \<open>
  A model object is the list of layers it was built from and, once \<^verbatim>\<open>compile\<close> has
  been called, the optimizer and the loss. The early stopping callback is its three
  arguments. \<^verbatim>\<open>history.history\<close> is a dictionary from a metric name to one value per
  epoch.
\<close>

record keras_model =
  layers :: "layer list"
  compiled :: "(string \<times> string) option"

record early_stopping =
  min_delta :: rat
  patience :: nat
  restore_best_weights :: bool

type_synonym history = "(string \<times> float list) list"

datatype pyval =
    Frame dataframe
  | Series series
  | Column column
  | Model keras_model
  | Callback early_stopping
  | History history

text \<open>What \<^verbatim>\<open>model.fit\<close> is called with.\<close>

record fit_args =
  fit_model :: keras_model
  fit_x :: dataframe
  fit_y :: column
  fit_validation_data :: "dataframe \<times> column"
  fit_batch_size :: nat
  fit_epochs :: nat
  fit_callbacks :: "early_stopping list"

subsection \<open>The statements of the code cells\<close>

text \<open>
  One constructor per form of statement the code cells contain; the arguments are the
  names and literals the cell writes. A notebook is straight-line code: no cell has a
  branch, a loop, a function or class definition, a \<^verbatim>\<open>try\<close> or a \<^verbatim>\<open>raise\<close>.

  \<^item> \<open>Import line\<close>: an \<^verbatim>\<open>import\<close> or \<^verbatim>\<open>from ... import\<close> line, as written
  \<^item> \<open>StyleUse s\<close>: \<^verbatim>\<open>plt.style.use(s)\<close>; \<open>RcSet g kw\<close>: \<^verbatim>\<open>plt.rc(g, **kw)\<close>
  \<^item> \<open>ReadCsv x p\<close>: \<^verbatim>\<open>x = pd.read_csv(p)\<close>
  \<^item> \<open>Sample x y f r\<close>: \<^verbatim>\<open>x = y.sample(frac=f, random_state=r)\<close>
  \<^item> \<open>DropIndexOf x y z\<close>: \<^verbatim>\<open>x = y.drop(z.index)\<close>
  \<^item> \<open>DisplayHead x n\<close>: \<^verbatim>\<open>display(x.head(n))\<close>
  \<^item> \<open>MaxAxis0 x y\<close>: \<^verbatim>\<open>x = y.max(axis=0)\<close>; \<open>MinAxis0 x y\<close>: \<^verbatim>\<open>x = y.min(axis=0)\<close>
  \<^item> \<open>Rescale x y lo hi\<close>: \<^verbatim>\<open>x = (y - lo) / (hi - lo)\<close>
  \<^item> \<open>DropColumn x y c\<close>: \<^verbatim>\<open>x = y.drop(c, axis=1)\<close>; \<open>GetColumn x y c\<close>: \<^verbatim>\<open>x = y[c]\<close>
  \<^item> \<open>MakeEarlyStopping x cfg\<close>: \<^verbatim>\<open>x = EarlyStopping(...)\<close>
  \<^item> \<open>Sequential (Some x) ls\<close>: \<^verbatim>\<open>x = keras.Sequential(ls)\<close>; \<open>Sequential None ls\<close>: the
    same call as a bare expression, whose value the cell displays
  \<^item> \<open>LayerTuple ls shown\<close>: a line that is a bare tuple of layer constructor calls;
    \<open>shown\<close> tells whether it is the last statement of its cell, whose value the cell
    displays
  \<^item> \<open>Summary m\<close>: \<^verbatim>\<open>m.summary()\<close>; \<open>Compile m opt loss\<close>: \<^verbatim>\<open>m.compile(optimizer=opt, loss=loss)\<close>
  \<^item> \<open>Fit h m X y (Xv, yv) b e cbs\<close>:
    \<^verbatim>\<open>h = m.fit(X, y, validation_data=(Xv, yv), batch_size=b, epochs=e, callbacks=cbs, verbose=0)\<close>
  \<^item> \<open>HistoryFrame x h\<close>: \<^verbatim>\<open>x = pd.DataFrame(h.history)\<close>
  \<^item> \<open>PlotColumns x cs\<close>: \<^verbatim>\<open>x.loc[:, cs].plot()\<close>
  \<^item> \<open>PrintMin fmt x c\<close>: \<^verbatim>\<open>print(fmt.format(x[c].min()))\<close>
\<close>

datatype stmt =
    Import string
  | StyleUse string
  | RcSet string "(string \<times> string) list"
  | ReadCsv string string
  | Sample string string rat "int option"
  | DropIndexOf string string string
  | DisplayHead string nat
  | MaxAxis0 string string
  | MinAxis0 string string
  | Rescale string string string string
  | DropColumn string string string
  | GetColumn string string string
  | MakeEarlyStopping string early_stopping
  | Sequential "string option" "layer list"
  | LayerTuple "layer list" bool
  | Summary string
  | Compile string string string
  | Fit string string string string "string \<times> string" nat nat "string list"
  | HistoryFrame string string
  | PlotColumns string "string list"
  | PrintMin string string string

subsection \<open>The external libraries and the session\<close>

text \<open>
  The code of pandas, NumPy and Keras that the notebooks do not contain is a parameter
  of the model, next to the floating-point unit: the CSV parser (the typed columns of a
  file's text), the seeded generator \<^verbatim>\<open>np.random.RandomState(seed)\<close>, the positions
  a generator draws for \<^verbatim>\<open>sample(frac=f)\<close> on an axis of \<open>n\<close> rows (with the
  generator's next state), and the training loop behind \<^verbatim>\<open>model.fit\<close>, early
  stopping included. So is what the code of the libraries that a statement calls does
  to the files the libraries keep for themselves: Keras writes its configuration file
  when it is imported and there is none, matplotlib writes its font cache before the
  first figure when there is none. Nothing is assumed about them; what a result
  needs of the floating-point unit is stated with it.
\<close>

record 'g lib = fpu +
  parse_csv :: "string \<Rightarrow> error + (string \<times> column_data) list"
  RandomState :: "int \<Rightarrow> 'g"
  draw :: "'g \<Rightarrow> rat \<Rightarrow> nat \<Rightarrow> nat list \<times> 'g"
  keras_fit :: "fit_args \<Rightarrow> error + history"
  library_writes :: "stmt \<Rightarrow> (string \<rightharpoonup> string) \<Rightarrow> (string \<rightharpoonup> string)"

text \<open>
  What a cell can read and change: the variables of the kernel, the files of the
  working tree (a path, as a cell would write it, to the file's text), the files that
  the libraries keep for themselves outside the working tree (configuration, caches),
  NumPy's global generator, matplotlib's settings, and what the cells have displayed
  so far. The two sets of files outlive the kernel; the rest does not.
\<close>

datatype rc_update = Style string | Rc string "(string \<times> string) list"

datatype cell_output =
    OutFrame dataframe
  | OutModel "layer list"
  | OutLayers "layer list"
  | OutSummary "layer list"
  | OutFigure "(string \<times> column_data) list"
  | OutText string num

record 'g world =
  vars :: "string \<rightharpoonup> pyval"
  fs :: "string \<rightharpoonup> string"
  lib_files :: "string \<rightharpoonup> string"
  np_random :: 'g
  rcParams :: "rc_update list"
  outputs :: "cell_output list"

definition assign :: "string \<Rightarrow> pyval \<Rightarrow> 'g world \<Rightarrow> 'g world" where
  "assign x v w = w\<lparr>vars := (vars w)(x \<mapsto> v)\<rparr>"

definition emit :: "cell_output \<Rightarrow> 'g world \<Rightarrow> 'g world" where
  "emit out w = w\<lparr>outputs := outputs w @ [out]\<rparr>"

text \<open>What the library code called by a statement does to the libraries' own files.\<close>

definition touch :: "'g lib \<Rightarrow> stmt \<Rightarrow> 'g world \<Rightarrow> 'g world" where
  "touch L s w = w\<lparr>lib_files := library_writes L s (lib_files w)\<rparr>"

text \<open>
  Reading a variable: an unbound name raises \<^verbatim>\<open>NameError\<close>; a value of another kind
  than the operation needs has no such method (\<^verbatim>\<open>AttributeError\<close>).
\<close>

definition get_frame :: "'g world \<Rightarrow> string \<Rightarrow> error + dataframe" where
  "get_frame w x =
     (case vars w x of
        None \<Rightarrow> Inl (NameError x)
      | Some (Frame df) \<Rightarrow> Inr df
      | Some _ \<Rightarrow> Inl (AttributeError x))"

definition get_series :: "'g world \<Rightarrow> string \<Rightarrow> error + series" where
  "get_series w x =
     (case vars w x of
        None \<Rightarrow> Inl (NameError x)
      | Some (Series s) \<Rightarrow> Inr s
      | Some _ \<Rightarrow> Inl (AttributeError x))"

definition get_column_var :: "'g world \<Rightarrow> string \<Rightarrow> error + column" where
  "get_column_var w x =
     (case vars w x of
        None \<Rightarrow> Inl (NameError x)
      | Some (Column c) \<Rightarrow> Inr c
      | Some _ \<Rightarrow> Inl (AttributeError x))"

definition get_model :: "'g world \<Rightarrow> string \<Rightarrow> error + keras_model" where
  "get_model w x =
     (case vars w x of
        None \<Rightarrow> Inl (NameError x)
      | Some (Model m) \<Rightarrow> Inr m
      | Some _ \<Rightarrow> Inl (AttributeError x))"

definition get_callback :: "'g world \<Rightarrow> string \<Rightarrow> error + early_stopping" where
  "get_callback w x =
     (case vars w x of
        None \<Rightarrow> Inl (NameError x)
      | Some (Callback c) \<Rightarrow> Inr c
      | Some _ \<Rightarrow> Inl (AttributeError x))"

definition get_history :: "'g world \<Rightarrow> string \<Rightarrow> error + history" where
  "get_history w x =
     (case vars w x of
        None \<Rightarrow> Inl (NameError x)
      | Some (History h) \<Rightarrow> Inr h
      | Some _ \<Rightarrow> Inl (AttributeError x))"

fun get_callbacks :: "'g world \<Rightarrow> string list \<Rightarrow> error + early_stopping list" where
  "get_callbacks w [] = Inr []"
| "get_callbacks w (x # xs) =
     and_then (get_callback w x) (\<lambda>c. and_then (get_callbacks w xs) (\<lambda>cs. Inr (c # cs)))"

text \<open>
  \<^verbatim>\<open>pd.read_csv(path)\<close>: a missing file raises \<^verbatim>\<open>FileNotFoundError\<close>, a parser error is
  passed on, and the rows of the frame are labelled \<open>0, 1, 2, ...\<close> (no index column is
  asked for).
\<close>

definition read_csv :: "'g lib \<Rightarrow> (string \<rightharpoonup> string) \<Rightarrow> string \<Rightarrow> error + dataframe" where
  "read_csv L files path =
     (case files path of
        None \<Rightarrow> Inl (FileNotFoundError path)
      | Some txt \<Rightarrow>
          and_then (parse_csv L txt)
            (\<lambda>cs. Inr \<lparr>index = [0..<(case cs of [] \<Rightarrow> 0 | cv # _ \<Rightarrow> clen (snd cv))],
                       cols = cs\<rparr>))"

text \<open>
  \<^verbatim>\<open>df.sample(frac=f, random_state=r)\<close>: with an integer \<open>r\<close> the positions are drawn from
  a new generator seeded with \<open>r\<close>, and the global generator is left alone; with no
  \<^verbatim>\<open>random_state\<close> they are drawn from the global generator, which advances. The rows
  at the drawn positions are taken.
\<close>

definition sample ::
  "'g lib \<Rightarrow> rat \<Rightarrow> int option \<Rightarrow> dataframe \<Rightarrow> 'g \<Rightarrow> (error + dataframe) \<times> 'g" where
  "sample L f random_state df g =
     (case random_state of
        Some seed \<Rightarrow> (take_rows df (fst (draw L (RandomState L seed) f (nrows df))), g)
      | None \<Rightarrow>
          (take_rows df (fst (draw L g f (nrows df))), snd (draw L g f (nrows df))))"

text \<open>
  \<^verbatim>\<open>pd.DataFrame(history.history)\<close>: one column per metric, one row per epoch; lists of
  different lengths raise \<^verbatim>\<open>ValueError\<close>.
\<close>

definition history_frame :: "history \<Rightarrow> error + dataframe" where
  "history_frame h =
     (case h of
        [] \<Rightarrow> Inr \<lparr>index = [], cols = []\<rparr>
      | cv # _ \<Rightarrow>
          if list_all (\<lambda>cv'. length (snd cv') = length (snd cv)) h
          then Inr \<lparr>index = [0..<length (snd cv)],
                    cols = map (\<lambda>cv'. (fst cv', FltCol (snd cv'))) h\<rparr>
          else Inl (ValueError ''All arrays must be of the same length''))"

text \<open>\<^verbatim>\<open>df.loc[:, cs]\<close>: the listed columns, in the listed order; \<^verbatim>\<open>KeyError\<close> on a missing one.\<close>

fun select_columns :: "dataframe \<Rightarrow> string list \<Rightarrow> error + (string \<times> column_data) list" where
  "select_columns df [] = Inr []"
| "select_columns df (c # cs) =
     and_then (get_column df c)
       (\<lambda>col. and_then (select_columns df cs) (\<lambda>rest. Inr ((c, snd col) # rest)))"

section \<open>Executing the statements\<close>

text \<open>
  Executing one statement: the new state, or the exception it raises. No statement
  catches an exception: what a library call or a lookup raises is what the statement
  raises. The modules are taken to be installed, so an import raises nothing. The
  arguments of a call are looked up before the call is made. The weights of a model
  are inside the library and are not modelled, so \<^verbatim>\<open>fit\<close> only yields the history.
  A statement that completes has run library code, which may have written files of
  the library's own.
\<close>

fun exec :: "'g lib \<Rightarrow> stmt \<Rightarrow> 'g world \<Rightarrow> error + 'g world" where
  "exec L (Import m) w = Inr (touch L (Import m) w)"
| "exec L (StyleUse s) w = Inr (touch L (StyleUse s) (w\<lparr>rcParams := rcParams w @ [Style s]\<rparr>))"
| "exec L (RcSet g kw) w = Inr (touch L (RcSet g kw) (w\<lparr>rcParams := rcParams w @ [Rc g kw]\<rparr>))"
| "exec L (ReadCsv x path) w =
     and_then (read_csv L (fs w) path) (\<lambda>df.
       Inr (touch L (ReadCsv x path) (assign x (Frame df) w)))"
| "exec L (Sample x y f r) w =
     and_then (get_frame w y) (\<lambda>df.
       and_then (fst (sample L f r df (np_random w))) (\<lambda>d.
         Inr (touch L (Sample x y f r)
               (assign x (Frame d) (w\<lparr>np_random := snd (sample L f r df (np_random w))\<rparr>)))))"
| "exec L (DropIndexOf x y z) w =
     and_then (get_frame w y) (\<lambda>dy.
       and_then (get_frame w z) (\<lambda>dz.
         and_then (drop_rows dy (index dz)) (\<lambda>d.
           Inr (touch L (DropIndexOf x y z) (assign x (Frame d) w)))))"
| "exec L (DisplayHead x n) w =
     and_then (get_frame w x) (\<lambda>df.
       Inr (touch L (DisplayHead x n) (emit (OutFrame (head df n)) w)))"
| "exec L (MaxAxis0 x y) w =
     and_then (get_frame w y) (\<lambda>df.
       Inr (touch L (MaxAxis0 x y) (assign x (Series (max_axis0 L df)) w)))"
| "exec L (MinAxis0 x y) w =
     and_then (get_frame w y) (\<lambda>df.
       Inr (touch L (MinAxis0 x y) (assign x (Series (min_axis0 L df)) w)))"
| "exec L (Rescale x y lo hi) w =
     and_then (get_frame w y) (\<lambda>df.
       and_then (get_series w lo) (\<lambda>mn.
         and_then (get_series w hi) (\<lambda>mx.
           Inr (touch L (Rescale x y lo hi) (assign x (Frame (rescale L df mn mx)) w)))))"
| "exec L (DropColumn x y c) w =
     and_then (get_frame w y) (\<lambda>df.
       and_then (drop_column df c) (\<lambda>d.
         Inr (touch L (DropColumn x y c) (assign x (Frame d) w))))"
| "exec L (GetColumn x y c) w =
     and_then (get_frame w y) (\<lambda>df.
       and_then (get_column df c) (\<lambda>col.
         Inr (touch L (GetColumn x y c) (assign x (Column col) w))))"
| "exec L (MakeEarlyStopping x cfg) w =
     Inr (touch L (MakeEarlyStopping x cfg) (assign x (Callback cfg) w))"
| "exec L (Sequential (Some x) ls) w =
     Inr (touch L (Sequential (Some x) ls) (assign x (Model \<lparr>layers = ls, compiled = None\<rparr>) w))"
| "exec L (Sequential None ls) w = Inr (touch L (Sequential None ls) (emit (OutModel ls) w))"
| "exec L (LayerTuple ls shown) w =
     Inr (touch L (LayerTuple ls shown) (if shown then emit (OutLayers ls) w else w))"
| "exec L (Summary m) w =
     and_then (get_model w m) (\<lambda>md.
       if layers md \<noteq> [] \<and> layer_input_shape (hd (layers md)) \<noteq> None
       then Inr (touch L (Summary m) (emit (OutSummary (layers md)) w))
       else Inl (ValueError ''This model has not yet been built''))"
| "exec L (Compile m opt loss) w =
     and_then (get_model w m) (\<lambda>md.
       Inr (touch L (Compile m opt loss) (assign m (Model (md\<lparr>compiled := Some (opt, loss)\<rparr>)) w)))"
| "exec L (Fit h m X y vd b e cbs) w =
     and_then (get_model w m) (\<lambda>md.
       and_then (get_frame w X) (\<lambda>dx.
       and_then (get_column_var w y) (\<lambda>cy.
       and_then (get_frame w (fst vd)) (\<lambda>dxv.
       and_then (get_column_var w (snd vd)) (\<lambda>cyv.
       and_then (get_callbacks w cbs) (\<lambda>cs.
         if compiled md = None
         then Inl (RuntimeError ''You must compile your model before training'')
         else
           and_then
             (keras_fit L
                \<lparr>fit_model = md, fit_x = dx, fit_y = cy, fit_validation_data = (dxv, cyv),
                 fit_batch_size = b, fit_epochs = e, fit_callbacks = cs\<rparr>)
             (\<lambda>hist. Inr (touch L (Fit h m X y vd b e cbs) (assign h (History hist) w)))))))))"
| "exec L (HistoryFrame x h) w =
     and_then (get_history w h) (\<lambda>hist.
       and_then (history_frame hist) (\<lambda>df.
         Inr (touch L (HistoryFrame x h) (assign x (Frame df) w))))"
| "exec L (PlotColumns x cs) w =
     and_then (get_frame w x) (\<lambda>df.
       and_then (select_columns df cs) (\<lambda>sel.
         Inr (touch L (PlotColumns x cs) (emit (OutFigure sel) w))))"
| "exec L (PrintMin fmt x c) w =
     and_then (get_frame w x) (\<lambda>df.
       and_then (get_column df c) (\<lambda>col.
         Inr (touch L (PrintMin fmt x c) (emit (OutText fmt (col_min (snd col))) w))))"

text \<open>
  Running statements in order stops at the first exception; the state is then the one
  the failing statement started from. \<open>executed\<close> lists the statements that were
  started, \<open>completed\<close> those that ended without an exception.
\<close>

fun run :: "'g lib \<Rightarrow> stmt list \<Rightarrow> 'g world \<Rightarrow> error option \<times> 'g world" where
  "run L [] w = (None, w)"
| "run L (s # ss) w =
     (case exec L s w of
        Inl e \<Rightarrow> (Some e, w)
      | Inr w' \<Rightarrow> run L ss w')"

fun executed :: "'g lib \<Rightarrow> stmt list \<Rightarrow> 'g world \<Rightarrow> stmt list" where
  "executed L [] w = []"
| "executed L (s # ss) w =
     s # (case exec L s w of
            Inl e \<Rightarrow> []
          | Inr w' \<Rightarrow> executed L ss w')"



section \<open>The code cells of the notebooks\<close>

text \<open>
  The three statements that load the red wine data and split it, the same in both
  notebooks that train a model:
  \<^verbatim>\<open>red_wine = pd.read_csv('../data/red-wine.csv')\<close>,
  \<^verbatim>\<open>df_train = red_wine.sample(frac=0.7, random_state=0)\<close>,
  \<^verbatim>\<open>df_valid = red_wine.drop(df_train.index)\<close>.
\<close>

definition split_step :: "stmt list" where
  "split_step =
    [Sample ''df_train'' ''red_wine'' (7 / 10) (Some 0),
     DropIndexOf ''df_valid'' ''red_wine'' ''df_train'']"

definition load_and_split :: "stmt list" where
  "load_and_split = ReadCsv ''red_wine'' ''../data/red-wine.csv'' # split_step"

text \<open>The statements under \<^verbatim>\<open># Scale to [0, 1]\<close> (early stopping notebook only).\<close>

definition scale_step :: "stmt list" where
  "scale_step =
    [MaxAxis0 ''max_'' ''df_train'',
     MinAxis0 ''min_'' ''df_train'',
     Rescale ''df_train'' ''df_train'' ''min_'' ''max_'',
     Rescale ''df_valid'' ''df_valid'' ''min_'' ''max_'']"

text \<open>The statements under \<^verbatim>\<open># Split features and target\<close> (both notebooks).\<close>

definition features_and_target :: "stmt list" where
  "features_and_target =
    [DropColumn ''X_train'' ''df_train'' ''quality'',
     DropColumn ''X_valid'' ''df_valid'' ''quality'',
     GetColumn ''y_train'' ''df_train'' ''quality'',
     GetColumn ''y_valid'' ''df_valid'' ''quality'']"

definition early_stopping_config :: early_stopping where
  "early_stopping_config = \<lparr>min_delta = 1 / 1000, patience = 20, restore_best_weights = True\<rparr>"

text \<open>
  The data cell of the dropout notebook (plot settings, load, split, features and
  target; the data is not scaled) and the data cell of the early stopping notebook
  (load, split, display of four training rows, scaling, features and target).
\<close>

definition dropout_data_cell :: "stmt list" where
  "dropout_data_cell =
     [Import ''import matplotlib.pyplot as plt'',
      StyleUse ''seaborn-whitegrid'',
      RcSet ''figure'' [(''autolayout'', ''True'')],
      RcSet ''axes''
        [(''labelweight'', ''bold''), (''labelsize'', ''large''), (''titleweight'', ''bold''),
         (''titlesize'', ''18''), (''titlepad'', ''10'')],
      Import ''import pandas as pd'']
      @ load_and_split @ features_and_target"

definition early_stopping_data_cell :: "stmt list" where
  "early_stopping_data_cell =
     [Import ''import pandas as pd'', Import ''from IPython.display import display'']
      @ load_and_split
      @ [DisplayHead ''df_train'' 4]
      @ scale_step @ features_and_target"



text \<open>
  \<^verbatim>\<open>deep_neural_networks.ipynb\<close>, second notebook (dropout and batch normalization): the
  three snippets, the data cell, the model cell and the training cell. In the second
  and the third snippet every line is a layer constructor call followed by a comma: a
  statement of its own, whose value is a tuple of one layer.
\<close>

fun layer_lines :: "layer list \<Rightarrow> stmt list" where
  "layer_lines [] = []"
| "layer_lines [l] = [LayerTuple [l] True]"
| "layer_lines (l # ls) = LayerTuple [l] False # layer_lines ls"

definition dropout_notebook :: "stmt list list" where
  "dropout_notebook =
    [[Import ''from tensorflow import keras'',
      Import ''from tensorflow.keras import layers'',
      Sequential None dropout_snippet],
     layer_lines batchnorm_after_snippet,
     layer_lines batchnorm_between_snippet,
     dropout_data_cell,
     [Import ''from tensorflow import keras'',
      Import ''from tensorflow.keras import layers'',
      Sequential (Some ''model'') dropout_model,
      Summary ''model''],
     [Compile ''model'' ''adam'' ''mae'',
      Fit ''history'' ''model'' ''X_train'' ''y_train'' (''X_valid'', ''y_valid'') 256 100 [],
      HistoryFrame ''history_df'' ''history'',
      PlotColumns ''history_df'' [''loss'', ''val_loss'']]]"

text \<open>
  The overfitting and early stopping notebook: the capacity examples, the callback, the
  data cell (with the scaling), the model cell and the training cell.
\<close>

definition early_stopping_notebook :: "stmt list list" where
  "early_stopping_notebook =
    [[Import ''import tensorflow as tf'',
      Import ''from tensorflow import keras'',
      Import ''from tensorflow.keras import layers'',
      Sequential (Some ''model'') capacity_model,
      Sequential (Some ''wider'') wider,
      Sequential (Some ''deeper'') deeper],
     [Import ''from tensorflow.keras.callbacks import EarlyStopping'',
      MakeEarlyStopping ''early_stopping'' early_stopping_config],
     early_stopping_data_cell,
     [Import ''from tensorflow import keras'',
      Import ''from tensorflow.keras import layers, callbacks'',
      MakeEarlyStopping ''early_stopping'' early_stopping_config,
      Sequential (Some ''model'') early_stopping_model,
      Compile ''model'' ''adam'' ''mae''],
     [Fit ''history'' ''model'' ''X_train'' ''y_train'' (''X_valid'', ''y_valid'') 256 500
        [''early_stopping''],
      HistoryFrame ''history_df'' ''history'',
      PlotColumns ''history_df'' [''loss'', ''val_loss''],
      PrintMin ''Minimum validation loss: {}'' ''history_df'' ''val_loss'']]"

text \<open>The notebooks that call \<^verbatim>\<open>fit\<close>, all four notebooks, and the models that are fitted.\<close>

definition training_notebooks :: "stmt list list list" where
  "training_notebooks = [dropout_notebook, early_stopping_notebook]"


definition fitted_models :: "layer list list" where
  "fitted_models = [dropout_model, early_stopping_model]"

text \<open>
  The steps of the pipeline the specification names, read generously: the load is
  \<^verbatim>\<open>read_csv\<close>; the split is the sampling and dropping of rows and the separation of
  the features from the target; the construction is every statement that builds or
  configures a model or a callback; the training is \<^verbatim>\<open>fit\<close>; the plot is the history
  frame and its plot. Imports and matplotlib settings are set-up. What remains is
  \<open>Other\<close>: displaying rows, the column maxima and minima, the rescaling arithmetic
  and the printed minimum.
\<close>

datatype step = Setup | Load | Split | Construct | Train | Plot | Other

fun step_of :: "stmt \<Rightarrow> step" where
  "step_of (Import m) = Setup"
| "step_of (StyleUse s) = Setup"
| "step_of (RcSet g kw) = Setup"
| "step_of (ReadCsv x p) = Load"
| "step_of (Sample x y f r) = Split"
| "step_of (DropIndexOf x y z) = Split"
| "step_of (DisplayHead x n) = Other"
| "step_of (MaxAxis0 x y) = Other"
| "step_of (MinAxis0 x y) = Other"
| "step_of (Rescale x y lo hi) = Other"
| "step_of (DropColumn x y c) = Split"
| "step_of (GetColumn x y c) = Split"
| "step_of (MakeEarlyStopping x cfg) = Construct"
| "step_of (Sequential x ls) = Construct"
| "step_of (LayerTuple ls shown) = Construct"
| "step_of (Summary m) = Construct"
| "step_of (Compile m opt loss) = Construct"
| "step_of (Fit h m X y vd b e cbs) = Train"
| "step_of (HistoryFrame x h) = Plot"
| "step_of (PlotColumns x cs) = Plot"
| "step_of (PrintMin fmt x c) = Other"

text \<open>The steps of a run, set-up left out and repeated steps merged.\<close>

definition steps :: "stmt list \<Rightarrow> step list" where
  "steps prog = remdups_adj (filter (\<lambda>k. k \<noteq> Setup) (map step_of prog))"

definition five_steps :: "step list" where
  "five_steps = [Load, Split, Construct, Train, Plot]"


section \<open>A small session to run the cells on\<close>

text \<open>
  The twelve column labels of the red wine data and the four rows that the data cell of
  the early stopping notebook displays (its stored output), as a file of four rows:
  eleven \<^verbatim>\<open>float64\<close> columns and the \<^verbatim>\<open>int64\<close> column \<^verbatim>\<open>quality\<close>.
\<close>

definition red_wine_labels :: "string list" where
  "red_wine_labels =
    [''fixed acidity'', ''volatile acidity'', ''citric acid'', ''residual sugar'',
     ''chlorides'', ''free sulfur dioxide'', ''total sulfur dioxide'', ''density'',
     ''pH'', ''sulphates'', ''alcohol'', ''quality'']"

definition demo_rows :: "rat list list" where
  "demo_rows =
    [[108 / 10, 470 / 1000, 43 / 100, 210 / 100, 171 / 1000, 27, 66, 99820 / 100000,
      317 / 100, 76 / 100, 108 / 10],
     [81 / 10, 820 / 1000, 0, 410 / 100, 95 / 1000, 5, 14, 99854 / 100000,
      336 / 100, 53 / 100, 96 / 10],
     [91 / 10, 290 / 1000, 33 / 100, 205 / 100, 63 / 1000, 13, 27, 99516 / 100000,
      326 / 100, 84 / 100, 117 / 10],
     [102 / 10, 645 / 1000, 36 / 100, 180 / 100, 53 / 1000, 5, 14, 99820 / 100000,
      317 / 100, 42 / 100, 10]]"

definition demo_quality :: "64 word list" where
  "demo_quality = [6, 5, 7, 6]"

text \<open>The frame columns of the rows at the given positions.\<close>

definition demo_cols :: "nat list \<Rightarrow> (string \<times> column_data) list" where
  "demo_cols locs =
     zip (butlast red_wine_labels)
       (map (\<lambda>xs. FltCol (map Fin xs)) (transpose (map (\<lambda>i. demo_rows ! i) locs)))
     @ [(''quality'', IntCol (map (\<lambda>i. demo_quality ! i) locs))]"

definition demo_table :: "(string \<times> column_data) list" where
  "demo_table = demo_cols [0, 1, 2, 3]"

text \<open>
  A library to run on. Its floating-point unit rounds to the nearest multiple of
  \<^verbatim>\<open>2**-20\<close> and holds nothing beyond \<^verbatim>\<open>2**20\<close>; the parser knows one file text; a
  generator is a number, seeded with the seed itself; out of four rows the draw takes
  three, and which three depends on the generator; training reports two epochs;
  importing Keras writes its configuration file when there is none, and the first
  figure writes matplotlib's font cache when there is none.
\<close>

definition demo_rnd :: "rat \<Rightarrow> rat" where
  "demo_rnd r = of_int \<lfloor>r * 2 ^ 20 + 1 / 2\<rfloor> / 2 ^ 20"

definition demo_lib :: "nat lib" where
  "demo_lib =
    \<lparr>rnd = demo_rnd,
     max_float = 2 ^ 20,
     parse_csv = (\<lambda>txt. if txt = ''red wine'' then Inr demo_table else Inl (ParserError txt)),
     RandomState = (\<lambda>seed. nat \<bar>seed\<bar>),
     draw = (\<lambda>g f n. (if n = 4 then (if even g then [2, 0, 3] else [1, 3, 0]) else [], Suc g)),
     keras_fit = (\<lambda>args. Inr [(''loss'', [Fin (1 / 2), Fin (1 / 4)]),
                                 (''val_loss'', [Fin (3 / 5), Fin (2 / 5)])]),
     library_writes = (\<lambda>s h.
        case s of
          Import line \<Rightarrow>
            if line = ''from tensorflow import keras'' \<and> h ''.keras/keras.json'' = None
            then h(''.keras/keras.json'' \<mapsto> ''backend: tensorflow'')
            else h
        | PlotColumns x cs \<Rightarrow>
            if h ''.cache/matplotlib/fontlist.json'' = None
            then h(''.cache/matplotlib/fontlist.json'' \<mapsto> ''fonts'')
            else h
        | _ \<Rightarrow> h)\<rparr>"

text \<open>The same library, except that training always fails, as Keras does on a shape mismatch.\<close>

definition shape_mismatch_lib :: "nat lib" where
  "shape_mismatch_lib =
    demo_lib\<lparr>keras_fit := (\<lambda>args. Inl (ValueError ''Input 0 of layer sequential is incompatible with the layer''))\<rparr>"

definition demo_world :: "nat world" where
  "demo_world =
    \<lparr>vars = Map.empty,
     fs = [''../data/red-wine.csv'' \<mapsto> ''red wine''],
     lib_files = Map.empty,
     np_random = 1,
     rcParams = [],
     outputs = []\<rparr>"

text \<open>
  The frame of the four rows, a session in which it is already loaded (with a given
  state of the global generator), and its split at the positions \<open>2, 0, 3\<close>.
\<close>

definition demo_frame :: dataframe where
  "demo_frame = \<lparr>index = [0, 1, 2, 3], cols = demo_table\<rparr>"

definition demo_loaded :: "nat \<Rightarrow> nat world" where
  "demo_loaded g =
    \<lparr>vars = [''red_wine'' \<mapsto> Frame demo_frame],
     fs = Map.empty,
     lib_files = Map.empty,
     np_random = g,
     rcParams = [],
     outputs = []\<rparr>"

definition demo_train :: dataframe where
  "demo_train = \<lparr>index = [2, 0, 3], cols = demo_cols [2, 0, 3]\<rparr>"

definition demo_valid :: dataframe where
  "demo_valid = \<lparr>index = [1], cols = demo_cols [1]\<rparr>"

text \<open>A session that holds a training frame and a validation frame, and nothing else.\<close>

definition split_world :: "dataframe \<Rightarrow> dataframe \<Rightarrow> nat world" where
  "split_world t v =
    \<lparr>vars = [''df_train'' \<mapsto> Frame t, ''df_valid'' \<mapsto> Frame v],
     fs = Map.empty,
     lib_files = Map.empty,
     np_random = 0,
     rcParams = [],
     outputs = []\<rparr>"

text \<open>
  Three columns of three training rows and of one validation row of the red wine data.
\<close>

definition small_train :: dataframe where
  "small_train =
    \<lparr>index = [0, 1, 2],
     cols = [(''pH'', FltCol [Fin (351 / 100), Fin (320 / 100), Fin (326 / 100)]),
             (''alcohol'', FltCol [Fin (94 / 10), Fin (98 / 10), Fin 10]),
             (''quality'', IntCol [5, 5, 6])]\<rparr>"

definition small_valid :: dataframe where
  "small_valid =
    \<lparr>index = [3],
     cols = [(''pH'', FltCol [Fin (316 / 100)]),
             (''alcohol'', FltCol [Fin (105 / 10)]),
             (''quality'', IntCol [7])]\<rparr>"





text \<open>
  Three training frames of one column: one with a missing value, one whose range is
  beyond the largest finite value of the demonstration unit, and one of \<^verbatim>\<open>int64\<close>
  values whose range is beyond the largest \<^verbatim>\<open>int64\<close>.
\<close>

definition missing_train :: dataframe where
  "missing_train = \<lparr>index = [0, 1, 2], cols = [(''x'', FltCol [Fin 1, NaN, Fin 3])]\<rparr>"

definition wide_train :: dataframe where
  "wide_train =
    \<lparr>index = [0, 1, 2], cols = [(''x'', FltCol [Fin 1000000, Fin (- 1000000), Fin 0])]\<rparr>"

definition wrapping_train :: dataframe where
  "wrapping_train = \<lparr>index = [0, 1, 2], cols = [(''n'', IntCol [- (2 ^ 62), 0, 2 ^ 62])]\<rparr>"

section \<open>Facts about the operations\<close>

lemma and_then_Inr_iff: "and_then r f = Inr b \<longleftrightarrow> (\<exists>a. r = Inr a \<and> f a = Inr b)"
  by (cases r) (simp_all add: and_then_def)

lemma get_frame_Inr_iff: "get_frame w x = Inr df \<longleftrightarrow> vars w x = Some (Frame df)"
  by (auto simp: get_frame_def split: option.splits pyval.splits)

lemma run_Cons_None_iff:
  "run L (s # ss) w = (None, w') \<longleftrightarrow> (\<exists>w1. exec L s w = Inr w1 \<and> run L ss w1 = (None, w'))"
  by (cases "exec L s w") simp_all

lemma run_Nil_iff: "run L [] w = (None, w') \<longleftrightarrow> w' = w"
  by auto

lemma vars_assign: "vars (assign x v w) = (vars w)(x \<mapsto> v)"
  by (simp add: assign_def)

lemma touch_fields [simp]:
  "vars (touch L s w) = vars w"
  "fs (touch L s w) = fs w"
  "np_random (touch L s w) = np_random w"
  "rcParams (touch L s w) = rcParams w"
  "outputs (touch L s w) = outputs w"
  "lib_files (touch L s w) = library_writes L s (lib_files w)"
  by (simp_all add: touch_def)

lemma take_rows_index: "take_rows df locs = Inr d \<Longrightarrow> set (index d) \<subseteq> set (index df)"
  by (auto simp: take_rows_def nrows_def list_all_iff split: if_splits)

lemma take_rows_labels: "take_rows df locs = Inr d \<Longrightarrow> labels d = labels df"
  by (auto simp: take_rows_def labels_def comp_def split: if_splits)

lemma drop_rows_index:
  "drop_rows df ls = Inr d \<Longrightarrow> index d = filter (\<lambda>l. l \<notin> set ls) (index df)"
  by (auto simp: drop_rows_def split: if_splits)

lemma drop_rows_labels: "drop_rows df ls = Inr d \<Longrightarrow> labels d = labels df"
  by (auto simp: drop_rows_def labels_def comp_def split: if_splits)

lemma read_csv_index: "read_csv L files path = Inr df \<Longrightarrow> \<exists>n. index df = [0..<n]"
  by (auto simp: read_csv_def and_then_Inr_iff split: option.splits)

lemma sample_seeded:
  "sample L f (Some seed) df g =
     (take_rows df (fst (draw L (RandomState L seed) f (nrows df))), g)"
  by (simp add: sample_def)

text \<open>What a successful run of the load and the split has computed.\<close>

lemma run_load_and_split:
  assumes "run L load_and_split w = (None, w')"
  shows "\<exists>red_wine df_train df_valid.
           read_csv L (fs w) ''../data/red-wine.csv'' = Inr red_wine \<and>
           fst (sample L (7 / 10) (Some 0) red_wine (np_random w)) = Inr df_train \<and>
           drop_rows red_wine (index df_train) = Inr df_valid \<and>
           vars w' = (vars w)(''red_wine'' \<mapsto> Frame red_wine, ''df_train'' \<mapsto> Frame df_train,
                              ''df_valid'' \<mapsto> Frame df_valid)"
  using assms
  unfolding load_and_split_def split_step_def
  by (auto simp del: run.simps simp add: run_Cons_None_iff run_Nil_iff and_then_Inr_iff
      get_frame_Inr_iff vars_assign sample_seeded)

section \<open>Model configurations\<close>

text \<open>
  Claim C1, as the specification states it: every layer entry passed to a
  \<^verbatim>\<open>Sequential\<close> constructor carries a unit count (and at most an activation name). The
  fitted model of the dropout notebook is a list passed to \<^verbatim>\<open>Sequential\<close>, and its
  second and third entries, \<^verbatim>\<open>layers.Dropout(0.3)\<close> and
  \<^verbatim>\<open>layers.BatchNormalization()\<close>, carry no unit count.
\<close>

theorem sequential_entry_without_units:
  "dropout_model \<in> set all_sequentials \<and>
   dropout_model ! 1 = Dropout (3 / 10) \<and> layer_units (dropout_model ! 1) = None \<and>
   dropout_model ! 2 = BatchNormalization \<and> layer_units (dropout_model ! 2) = None"
  by (simp add: all_sequentials_def dropout_model_def)

text \<open>
  Claim C1, amended: every list passed to a \<^verbatim>\<open>Sequential\<close> constructor is a non-empty
  ordered list whose entries are dense layers with a positive unit count and at most
  the activation name \<^verbatim>\<open>'relu'\<close>, dropout layers with a rate strictly between 0 and 1,
  or batch normalization layers without arguments; only the first entry may declare an
  input shape.
\<close>

theorem sequential_entries:
  "\<forall>m \<in> set all_sequentials.
     m \<noteq> [] \<and> (\<forall>l \<in> set m. sequential_entry l) \<and> (\<forall>l \<in> set (tl m). layer_input_shape l = None)"
  unfolding all_sequentials_def single_neuron_model_def dnn_model_def dropout_snippet_def
    dropout_model_def capacity_model_def wider_def deeper_def early_stopping_model_def
  by simp

theorem sequential_entries_witness:
  "dropout_model \<in> set all_sequentials \<and> dropout_model \<noteq> [] \<and>
   Dropout (3 / 10) \<in> set dropout_model \<and> sequential_entry (Dropout (3 / 10)) \<and>
   Dense 1 None None \<in> set (tl dropout_model) \<and> layer_input_shape (Dense 1 None None) = None"
proof -
  have m: "dropout_model \<in> set all_sequentials"
    by (simp add: all_sequentials_def)
  have l: "Dropout (3 / 10) \<in> set dropout_model" "Dense 1 None None \<in> set (tl dropout_model)"
    by (simp_all add: dropout_model_def)
  from sequential_entries m l show ?thesis
    by blast
qed

section \<open>The split into training and validation rows\<close>

text \<open>
  Claim C2: in both notebooks that prepare data, \<^verbatim>\<open>df_train\<close> is a sample of the rows of
  \<^verbatim>\<open>red_wine\<close> and \<^verbatim>\<open>df_valid\<close> is \<^verbatim>\<open>red_wine\<close> without the rows labelled as
  \<^verbatim>\<open>df_train\<close>'s. Whenever the three statements run without an exception, the row
  labels of \<^verbatim>\<open>red_wine\<close> are distinct, no label is in both parts, and every label of
  \<^verbatim>\<open>red_wine\<close> is in one of them. This holds for every parser and every draw of
  positions.
\<close>

theorem split_is_partition:
  assumes "run L load_and_split w = (None, w')"
  shows "\<exists>red_wine df_train df_valid.
           vars w' ''red_wine'' = Some (Frame red_wine) \<and>
           vars w' ''df_train'' = Some (Frame df_train) \<and>
           vars w' ''df_valid'' = Some (Frame df_valid) \<and>
           distinct (index red_wine) \<and>
           set (index df_train) \<inter> set (index df_valid) = {} \<and>
           set (index df_train) \<union> set (index df_valid) = set (index red_wine)"
proof -
  from run_load_and_split [OF assms] obtain red_wine df_train df_valid where
    rd: "read_csv L (fs w) ''../data/red-wine.csv'' = Inr red_wine" and
    tr: "fst (sample L (7 / 10) (Some 0) red_wine (np_random w)) = Inr df_train" and
    va: "drop_rows red_wine (index df_train) = Inr df_valid" and
    vs: "vars w' = (vars w)(''red_wine'' \<mapsto> Frame red_wine, ''df_train'' \<mapsto> Frame df_train,
                              ''df_valid'' \<mapsto> Frame df_valid)"
    by blast
  from rd have d: "distinct (index red_wine)"
    by (auto dest: read_csv_index)
  from tr have sub: "set (index df_train) \<subseteq> set (index red_wine)"
    by (auto simp: sample_seeded dest: take_rows_index)
  from va have ix: "set (index df_valid) = set (index red_wine) - set (index df_train)"
    by (auto dest: drop_rows_index)
  from vs have "vars w' ''red_wine'' = Some (Frame red_wine)"
    "vars w' ''df_train'' = Some (Frame df_train)"
    "vars w' ''df_valid'' = Some (Frame df_valid)"
    by simp_all
  with d sub ix show ?thesis by blast
qed

theorem split_is_partition_witness:
  "fst (run demo_lib load_and_split demo_world) = None \<and>
   (\<exists>red_wine df_train df_valid.
      vars (snd (run demo_lib load_and_split demo_world)) ''red_wine'' = Some (Frame red_wine) \<and>
      vars (snd (run demo_lib load_and_split demo_world)) ''df_train'' = Some (Frame df_train) \<and>
      vars (snd (run demo_lib load_and_split demo_world)) ''df_valid'' = Some (Frame df_valid) \<and>
      distinct (index red_wine) \<and>
      set (index df_train) \<inter> set (index df_valid) = {} \<and>
      set (index df_train) \<union> set (index df_valid) = set (index red_wine))"
proof -
  have h: "fst (run demo_lib load_and_split demo_world) = None"
    by code_simp
  then have "run demo_lib load_and_split demo_world =
      (None, snd (run demo_lib load_and_split demo_world))"
    by (simp add: prod_eq_iff)
  from split_is_partition [OF this] h show ?thesis
    by blast
qed

section \<open>The split is repeatable\<close>

lemma run_split_step:
  assumes "vars w ''red_wine'' = Some (Frame red_wine)"
  shows "fst (run L split_step w) =
     (case take_rows red_wine (fst (draw L (RandomState L 0) (7 / 10) (nrows red_wine))) of
        Inl e \<Rightarrow> Some e
      | Inr df_train \<Rightarrow>
          (case drop_rows red_wine (index df_train) of Inl e \<Rightarrow> Some e | Inr df_valid \<Rightarrow> None))"
    and "take_rows red_wine (fst (draw L (RandomState L 0) (7 / 10) (nrows red_wine))) = Inr df_train \<Longrightarrow>
         drop_rows red_wine (index df_train) = Inr df_valid \<Longrightarrow>
         vars (snd (run L split_step w)) =
           (vars w)(''df_train'' \<mapsto> Frame df_train, ''df_valid'' \<mapsto> Frame df_valid)"
  using assms
  by (simp_all add: split_step_def and_then_def get_frame_def sample_seeded vars_assign
      split: sum.splits)

text \<open>
  Claim C3: the split is deterministic. Take two sessions that hold the same frame in
  \<^verbatim>\<open>red_wine\<close> and differ in anything else (the state of NumPy's global generator,
  the files, the other variables). Running
  \<^verbatim>\<open>df_train = red_wine.sample(frac=0.7, random_state=0)\<close> and
  \<^verbatim>\<open>df_valid = red_wine.drop(df_train.index)\<close> in both ends the same way (no exception
  in both, or the same exception in both), and when no exception is raised both sessions
  hold the same training frame and the same validation frame.
\<close>

theorem split_is_deterministic:
  assumes "vars w1 ''red_wine'' = Some (Frame red_wine)"
    and "vars w2 ''red_wine'' = Some (Frame red_wine)"
  shows "fst (run L split_step w1) = fst (run L split_step w2) \<and>
         (fst (run L split_step w1) = None \<longrightarrow>
            vars (snd (run L split_step w1)) ''df_train'' = vars (snd (run L split_step w2)) ''df_train'' \<and>
            vars (snd (run L split_step w1)) ''df_valid'' = vars (snd (run L split_step w2)) ''df_valid'' \<and>
            (\<exists>df_train df_valid.
               vars (snd (run L split_step w1)) ''df_train'' = Some (Frame df_train) \<and>
               vars (snd (run L split_step w1)) ''df_valid'' = Some (Frame df_valid)))"
proof -
  note a = run_split_step [OF assms(1), of L] and b = run_split_step [OF assms(2), of L]
  from a(1) b(1) have e: "fst (run L split_step w1) = fst (run L split_step w2)"
    by simp
  show ?thesis
  proof (cases "fst (run L split_step w1) = None")
    case True
    with a(1) obtain df_train df_valid where
      t: "take_rows red_wine (fst (draw L (RandomState L 0) (7 / 10) (nrows red_wine))) = Inr df_train"
      and v: "drop_rows red_wine (index df_train) = Inr df_valid"
      by (auto split: sum.splits)
    from a(2) [OF t v] b(2) [OF t v] e show ?thesis
      by simp
  next
    case False
    with e show ?thesis by auto
  qed
qed

theorem split_is_deterministic_witness:
  "vars (demo_loaded 4) ''red_wine'' = Some (Frame demo_frame) \<and>
   vars (demo_loaded 7) ''red_wine'' = Some (Frame demo_frame) \<and>
   fst (run demo_lib split_step (demo_loaded 4)) = None \<and>
   fst (run demo_lib split_step (demo_loaded 7)) = None \<and>
   vars (snd (run demo_lib split_step (demo_loaded 4))) ''df_train''
     = vars (snd (run demo_lib split_step (demo_loaded 7))) ''df_train'' \<and>
   vars (snd (run demo_lib split_step (demo_loaded 4))) ''df_valid''
     = vars (snd (run demo_lib split_step (demo_loaded 7))) ''df_valid'' \<and>
   vars (snd (run demo_lib split_step (demo_loaded 4))) ''df_train'' = Some (Frame demo_train) \<and>
   vars (snd (run demo_lib split_step (demo_loaded 4))) ''df_valid'' = Some (Frame demo_valid)"
proof -
  have a: "vars (demo_loaded 4) ''red_wine'' = Some (Frame demo_frame)"
    and b: "vars (demo_loaded 7) ''red_wine'' = Some (Frame demo_frame)"
    by (simp_all add: demo_loaded_def)
  have c: "fst (run demo_lib split_step (demo_loaded 4)) = None"
    by code_simp
  have d: "vars (snd (run demo_lib split_step (demo_loaded 4))) ''df_train'' = Some (Frame demo_train)"
    "vars (snd (run demo_lib split_step (demo_loaded 4))) ''df_valid'' = Some (Frame demo_valid)"
    by code_simp+
  from split_is_deterministic [OF a b, of demo_lib] a b c d show ?thesis
    by simp
qed

text \<open>
  Without \<^verbatim>\<open>random_state\<close> the sample is drawn from the global generator, and two
  sessions can disagree: the seed is what makes the split repeatable.
\<close>

lemma unseeded_sample_depends_on_generator:
  "fst (sample demo_lib (7 / 10) None demo_frame 4) \<noteq> fst (sample demo_lib (7 / 10) None demo_frame 7)"
  by code_simp

section \<open>Column minima and maxima, and the alignment of labels\<close>

lemma is_finite_iff: "is_finite v \<longleftrightarrow> (\<exists>a. v = Fin a)"
  by (cases v) simp_all

lemma fold_fmax_Fin:
  "list_all is_finite xs \<Longrightarrow>
   \<exists>m. fold fmax_f xs (Fin a) = Fin m \<and> a \<le> m \<and> (\<forall>b. Fin b \<in> set xs \<longrightarrow> b \<le> m)"
proof (induction xs arbitrary: a)
  case Nil
  then show ?case by simp
next
  case (Cons v xs)
  from Cons.prems obtain b where v: "v = Fin b"
    by (cases v) simp_all
  from Cons.prems have fin: "list_all is_finite xs"
    by simp
  from Cons.IH [OF fin, of "max b a"] obtain m where
    m: "fold fmax_f xs (Fin (max b a)) = Fin m" "max b a \<le> m" "\<forall>c. Fin c \<in> set xs \<longrightarrow> c \<le> m"
    by blast
  show ?case
  proof (intro exI conjI)
    show "fold fmax_f (v # xs) (Fin a) = Fin m" using m(1) v by simp
    show "a \<le> m" using m(2) by simp
    show "\<forall>c. Fin c \<in> set (v # xs) \<longrightarrow> c \<le> m" using m(2,3) v by auto
  qed
qed

lemma fold_fmin_Fin:
  "list_all is_finite xs \<Longrightarrow>
   \<exists>m. fold fmin_f xs (Fin a) = Fin m \<and> m \<le> a \<and> (\<forall>b. Fin b \<in> set xs \<longrightarrow> m \<le> b)"
proof (induction xs arbitrary: a)
  case Nil
  then show ?case by simp
next
  case (Cons v xs)
  from Cons.prems obtain b where v: "v = Fin b"
    by (cases v) simp_all
  from Cons.prems have fin: "list_all is_finite xs"
    by simp
  from Cons.IH [OF fin, of "min b a"] obtain m where
    m: "fold fmin_f xs (Fin (min b a)) = Fin m" "m \<le> min b a" "\<forall>c. Fin c \<in> set xs \<longrightarrow> m \<le> c"
    by blast
  show ?case
  proof (intro exI conjI)
    show "fold fmin_f (v # xs) (Fin a) = Fin m" using m(1) v by simp
    show "m \<le> a" using m(2) by simp
    show "\<forall>c. Fin c \<in> set (v # xs) \<longrightarrow> m \<le> c" using m(2,3) v by auto
  qed
qed

text \<open>The minimum and the maximum of a \<^verbatim>\<open>float64\<close> column without a missing value.\<close>

lemma float_column_range:
  assumes "list_all is_finite xs" "xs \<noteq> []"
  shows "\<exists>mn mx. fold fmin_f xs NaN = Fin mn \<and> fold fmax_f xs NaN = Fin mx \<and>
                 (\<forall>b. Fin b \<in> set xs \<longrightarrow> mn \<le> b \<and> b \<le> mx)"
proof -
  from assms obtain b us where xs: "xs = Fin b # us" and fin: "list_all is_finite us"
    by (cases xs) (auto simp: is_finite_iff)
  from fold_fmin_Fin [OF fin, of b] obtain mn where
    mn: "fold fmin_f us (Fin b) = Fin mn" "mn \<le> b" "\<forall>c. Fin c \<in> set us \<longrightarrow> mn \<le> c"
    by blast
  from fold_fmax_Fin [OF fin, of b] obtain mx where
    mx: "fold fmax_f us (Fin b) = Fin mx" "b \<le> mx" "\<forall>c. Fin c \<in> set us \<longrightarrow> c \<le> mx"
    by blast
  from mn mx xs show ?thesis
    by auto
qed

text \<open>The minimum and the maximum of an \<^verbatim>\<open>int64\<close> column.\<close>

lemma fold_wmax:
  "sint n \<le> sint (fold wmax ns n) \<and> (\<forall>m \<in> set ns. sint m \<le> sint (fold wmax ns n))"
proof (induction ns arbitrary: n)
  case Nil
  then show ?case by simp
next
  case (Cons k ns)
  from Cons.IH [of "wmax k n"] show ?case
    by (auto simp: wmax_def split: if_splits)
qed

lemma fold_wmin:
  "sint (fold wmin ns n) \<le> sint n \<and> (\<forall>m \<in> set ns. sint (fold wmin ns n) \<le> sint m)"
proof (induction ns arbitrary: n)
  case Nil
  then show ?case by simp
next
  case (Cons k ns)
  from Cons.IH [of "wmin k n"] show ?case
    by (auto simp: wmin_def split: if_splits)
qed





text \<open>Signed subtraction of 64-bit words where the difference is an \<^verbatim>\<open>int64\<close>.\<close>

lemma sint_bounds:
  fixes a :: "64 word"
  shows "- (2 ^ 63) \<le> sint a" "sint a < 2 ^ 63"
  using sint_ge [of a] sint_lt [of a] by simp_all

lemma sint_sub_no_wrap:
  fixes h l :: "64 word"
  assumes "sint l \<le> sint h" "0 < sint (h - l)"
  shows "sint (h - l) = sint h - sint l"
proof -
  have s: "sint (h - l) = signed_take_bit 63 (sint h - sint l)"
    by (simp add: sint_word_diff)
  have "sint h - sint l < 2 ^ 63"
  proof (rule ccontr)
    assume "\<not> sint h - sint l < 2 ^ 63"
    then have "2 ^ 63 \<le> sint h - sint l" by simp
    then have "signed_take_bit 63 (sint h - sint l) \<le> sint h - sint l - 2 ^ Suc 63"
      by (rule signed_take_bit_int_less_eq)
    with s assms(2) sint_bounds [of h] sint_bounds [of l] show False by simp
  qed
  with assms(1) have "signed_take_bit 63 (sint h - sint l) = sint h - sint l"
    by (intro signed_take_bit_int_eq_self) simp_all
  with s show ?thesis by simp
qed

lemma sint_sub_between:
  fixes h l x :: "64 word"
  assumes "sint l \<le> sint x" "sint x \<le> sint h" "0 < sint (h - l)"
  shows "sint (x - l) = sint x - sint l"
proof -
  from assms have "sint l \<le> sint h" by simp
  from sint_sub_no_wrap [OF this assms(3)] sint_bounds [of "h - l"]
  have "sint h - sint l < 2 ^ 63" by simp
  with assms(1,2) have "signed_take_bit 63 (sint x - sint l) = sint x - sint l"
    by (intro signed_take_bit_int_eq_self) simp_all
  then show ?thesis by (simp add: sint_word_diff)
qed

text \<open>Lookups in the results of the column-wise operations.\<close>

lemma at_label_map:
  "at_label (map (\<lambda>cv. (fst cv, G (snd cv))) cs) c =
     (case map_of cs c of None \<Rightarrow> F64 NaN | Some v \<Rightarrow> G v)"
  by (induction cs) (auto simp: at_label_def)

lemma is_int_col_min: "is_int (col_min col) = is_int (col_max col)"
proof (cases col)
  case (IntCol ns)
  then show ?thesis by (cases ns) simp_all
next
  case (FltCol xs)
  then show ?thesis by simp
qed

lemma at_label_as_series:
  "at_label (as_series F (map (\<lambda>cv. (fst cv, G (snd cv))) cs)) c =
     (case map_of cs c of
        None \<Rightarrow> F64 NaN
      | Some v \<Rightarrow> if list_all (\<lambda>cv. is_int (G (snd cv))) cs then G v else F64 (to_float F (G v)))"
proof -
  have a: "list_all (\<lambda>cv. is_int (snd cv)) (map (\<lambda>cv. (fst cv, G (snd cv))) cs)
      = list_all (\<lambda>cv. is_int (G (snd cv))) cs"
    by (simp add: list_all_iff)
  have b: "map (\<lambda>cv. (fst cv, F64 (to_float F (snd cv)))) (map (\<lambda>cv. (fst cv, G (snd cv))) cs)
      = map (\<lambda>cv. (fst cv, (\<lambda>v. F64 (to_float F (G v))) (snd cv))) cs"
    by simp
  show ?thesis
    unfolding as_series_def a b
    using at_label_map [of G cs c] at_label_map [of "\<lambda>v. F64 (to_float F (G v))" cs c]
    by (simp split: option.splits)
qed

lemma at_label_max_axis0:
  "map_of (cols df) c = Some col \<Longrightarrow>
   at_label (max_axis0 F df) c =
     (if list_all (\<lambda>cv. is_int (col_max (snd cv))) (cols df) then col_max col
      else F64 (to_float F (col_max col)))"
  unfolding max_axis0_def by (simp add: at_label_as_series)

lemma at_label_min_axis0:
  "map_of (cols df) c = Some col \<Longrightarrow>
   at_label (min_axis0 F df) c =
     (if list_all (\<lambda>cv. is_int (col_max (snd cv))) (cols df) then col_min col
      else F64 (to_float F (col_min col)))"
  unfolding min_axis0_def by (simp add: at_label_as_series is_int_col_min)

lemma frame_not_int:
  "map_of (cols df) c = Some col \<Longrightarrow> \<not> is_int (col_max col) \<Longrightarrow>
   \<not> list_all (\<lambda>cv. is_int (col_max (snd cv))) (cols df)"
  by (force simp: list_all_iff dest!: map_of_SomeD)

lemma map_of_map_snd:
  "map_of (map (\<lambda>cv. (fst cv, G cv)) cs) c = (case map_of cs c of None \<Rightarrow> None | Some v \<Rightarrow> Some (G (c, v)))"
  by (induction cs) auto

lemma at_label_series_sub:
  "at_label (series_sub F a b) c =
     (case map_of a c of None \<Rightarrow> F64 NaN | Some v \<Rightarrow> fsub F v (at_label b c))"
proof (cases "map_of a c")
  case None
  have "map_of (map (\<lambda>cv. (fst cv, F64 NaN)) (filter (\<lambda>cv. fst cv \<notin> set (map fst a)) b)) c
      \<in> {None, Some (F64 NaN)}"
    by (induction b) auto
  with None show ?thesis
    by (auto simp: series_sub_def at_label_def map_of_map_snd map_add_def split: option.splits)
next
  case (Some v)
  then show ?thesis
    by (simp add: series_sub_def at_label_def map_of_map_snd map_add_def split: option.splits)
qed

lemma at_label_range:
  "at_label (series_sub F mx mn) c = fsub F (at_label mx c) (at_label mn c)"
  by (simp add: at_label_series_sub) (simp add: at_label_def split: option.splits)

lemma map_of_frame_op:
  "map_of (cols df) c = Some col \<Longrightarrow>
   map_of (cols (frame_op f df s)) c = Some (f col (at_label s c))"
  by (simp add: frame_op_def map_of_map_snd map_add_def split: option.splits)

lemma map_of_rescale:
  "map_of (cols df) c = Some col \<Longrightarrow>
   map_of (cols (rescale F df mn mx)) c =
     Some (col_div F (col_sub F col (at_label mn c)) (at_label (series_sub F mx mn) c))"
  by (simp add: rescale_def map_of_frame_op)

lemma cols_frame_op:
  "set (map fst s) \<subseteq> set (labels df) \<Longrightarrow>
   cols (frame_op f df s) = map (\<lambda>cv. (fst cv, f (snd cv) (at_label s (fst cv)))) (cols df)"
  by (auto simp: frame_op_def filter_empty_conv)

lemma labels_frame_op:
  "set (map fst s) \<subseteq> set (labels df) \<Longrightarrow> labels (frame_op f df s) = labels df"
proof -
  assume "set (map fst s) \<subseteq> set (labels df)"
  then have "cols (frame_op f df s) =
     map (\<lambda>cv. (fst cv, f (snd cv) (at_label s (fst cv)))) (cols df)"
    by (rule cols_frame_op)
  then show ?thesis
    by (simp add: labels_def comp_def)
qed

lemma labels_as_series: "map fst (as_series F s) = map fst s"
  by (simp add: as_series_def comp_def)

lemma labels_max_axis0: "map fst (max_axis0 F df) = labels df"
  by (simp add: max_axis0_def labels_as_series labels_def comp_def)

lemma labels_min_axis0: "map fst (min_axis0 F df) = labels df"
  by (simp add: min_axis0_def labels_as_series labels_def comp_def)

lemma labels_series_sub: "set (map fst (series_sub F a b)) \<subseteq> set (map fst a) \<union> set (map fst b)"
  by (auto simp: series_sub_def)

lemma labels_rescale:
  assumes "set (map fst mn) \<subseteq> set (labels df)" "set (map fst mx) \<subseteq> set (labels df)"
  shows "labels (rescale F df mn mx) = labels df"
proof -
  have a: "labels (frame_op (col_sub F) df mn) = labels df"
    using assms(1) by (rule labels_frame_op)
  have b: "set (map fst (series_sub F mx mn)) \<subseteq> set (labels (frame_op (col_sub F) df mn))"
    unfolding a using labels_series_sub [of F mx mn] assms by blast
  show ?thesis
    unfolding rescale_def using labels_frame_op [OF b] a by simp
qed


text \<open>Arithmetic of a floating-point unit that rounds as IEEE 754 requires.\<close>

lemma ieee_facts:
  assumes "ieee F"
  shows "a \<le> b \<Longrightarrow> rnd F a \<le> rnd F b" and "rnd F 0 = 0" and "rnd F 1 = 1" and "1 \<le> max_float F"
  using assms by (auto simp: ieee_def mono_def)

lemma to_float_I64: "ieee F \<Longrightarrow> to_float F (I64 k) = Fin (rnd F (of_int (sint k)))"
  by (simp add: ieee_def del: of_int_sint)

lemma quotient_in_unit_interval:
  assumes i: "ieee F" and "0 \<le> t" "t \<le> d" "0 < d"
  shows "\<exists>q. fdiv_f F (Fin t) (Fin d) = Fin q \<and> 0 \<le> q \<and> q \<le> 1"
proof -
  note f = ieee_facts [OF i]
  define q where "q = rnd F (t / d)"
  from assms(2-4) have "0 \<le> t / d" "t / d \<le> 1" by simp_all
  with f(1) [of 0 "t / d"] f(1) [of "t / d" 1] f(2,3) have q: "0 \<le> q" "q \<le> 1"
    by (simp_all add: q_def)
  with assms(4) f(2,4) have "fdiv_f F (Fin t) (Fin d) = Fin q"
    by (auto simp: fl_def q_def)
  with q show ?thesis by blast
qed

lemma scaled_float:
  assumes i: "ieee F" and "l \<le> x" "x \<le> h" and d: "fsub_f F (Fin h) (Fin l) = Fin d" "0 < d"
  shows "\<exists>q. fdiv_f F (fsub_f F (Fin x) (Fin l)) (Fin d) = Fin q \<and> 0 \<le> q \<and> q \<le> 1"
proof -
  note f = ieee_facts [OF i]
  from d have hl: "d = rnd F (h - l)" "d \<le> max_float F"
    by (auto simp: fl_def split: if_splits)
  define t where "t = rnd F (x - l)"
  from f(1) [of 0 "x - l"] f(2) assms(2) have t0: "0 \<le> t"
    by (simp add: t_def)
  from f(1) [of "x - l" "h - l"] assms(3) hl(1) have td: "t \<le> d"
    by (simp add: t_def)
  from t0 td hl(2) f(2,4) have "fsub_f F (Fin x) (Fin l) = Fin t"
    by (auto simp: fl_def t_def)
  with quotient_in_unit_interval [OF i t0 td d(2)] show ?thesis
    by simp
qed

lemma scaled_int:
  fixes x l h :: "64 word"
  assumes i: "ieee F" and "sint l \<le> sint x" "sint x \<le> sint h" and p: "0 < sint (h - l)"
  shows "\<exists>q. fdiv F (I64 (x - l)) (I64 (h - l)) = Fin q \<and> 0 \<le> q \<and> q \<le> 1"
proof -
  note f = ieee_facts [OF i]
  from assms(2,3) have lh: "sint l \<le> sint h" by simp
  note dh = sint_sub_no_wrap [OF lh p]
  note dx = sint_sub_between [OF assms(2,3) p]
  define a :: rat where "a = of_int (sint (x - l))"
  define b :: rat where "b = of_int (sint (h - l))"
  from dx assms(2) have a0: "0 \<le> a" by (simp add: a_def del: of_int_sint)
  from dx dh assms(3) have ab: "a \<le> b" by (simp add: a_def b_def del: of_int_sint)
  from p have b1: "1 \<le> b" by (simp add: b_def del: of_int_sint)
  from f(1) [OF a0] f(2) have t0: "0 \<le> rnd F a" by simp
  from f(1) [OF ab] have td: "rnd F a \<le> rnd F b" .
  from f(1) [OF b1] f(3) have d0: "0 < rnd F b" by simp
  have tx: "to_float F (I64 (x - l)) = Fin (rnd F a)"
    unfolding a_def by (rule to_float_I64 [OF i])
  have th: "to_float F (I64 (h - l)) = Fin (rnd F b)"
    unfolding b_def by (rule to_float_I64 [OF i])
  from quotient_in_unit_interval [OF i t0 td d0] show ?thesis
    unfolding fdiv_def tx th .
qed

section \<open>The scaling to the unit interval\<close>

lemma run_scale_step:
  assumes "vars w ''df_train'' = Some (Frame df_train)"
    and "vars w ''df_valid'' = Some (Frame df_valid)"
  shows "fst (run L scale_step w) = None"
    and "vars (snd (run L scale_step w)) =
      (vars w)(''max_'' \<mapsto> Series (max_axis0 L df_train),
               ''min_'' \<mapsto> Series (min_axis0 L df_train),
               ''df_train'' \<mapsto> Frame (rescale L df_train (min_axis0 L df_train) (max_axis0 L df_train)),
               ''df_valid'' \<mapsto> Frame (rescale L df_valid (min_axis0 L df_train) (max_axis0 L df_train)))"
  using assms
  by (simp_all add: scale_step_def and_then_def get_frame_def get_series_def vars_assign)

lemma positive_float: "positive (F64 y) \<Longrightarrow> \<exists>d. y = Fin d \<and> 0 < d"
  by (cases y) simp_all

lemma scaled_float_cells:
  assumes i: "ieee F"
    and b: "\<forall>x \<in> set xs. \<exists>a. x = Fin a \<and> l \<le> a \<and> a \<le> h"
    and p: "positive (F64 (fsub_f F (Fin h) (Fin l)))"
  shows "list_all unit_interval
           (map (\<lambda>x. fdiv F (F64 (fsub_f F x (Fin l))) (F64 (fsub_f F (Fin h) (Fin l)))) xs)"
proof -
  from positive_float [OF p] obtain d where d: "fsub_f F (Fin h) (Fin l) = Fin d" "0 < d"
    by blast
  then have d': "fl F (h - l) = Fin d"
    by simp
  have "unit_interval (fdiv F (F64 (fsub_f F x (Fin l))) (F64 (Fin d)))" if "x \<in> set xs" for x
  proof -
    from b that obtain a where a: "x = Fin a" "l \<le> a" "a \<le> h" by blast
    from scaled_float [OF i a(2,3) d] a(1) show ?thesis
      by (auto simp: fdiv_def)
  qed
  then show ?thesis
    by (simp add: list_all_iff d')
qed

text \<open>
  A column of the training frame without a missing value whose range, as the cell
  computes it, is a positive finite number: rescaled, its values lie in \<open>[0, 1]\<close>.
\<close>

lemma scaled_training_column:
  assumes i: "ieee F" and m: "map_of (cols df) c = Some col" and nm: "no_missing col"
    and p: "positive (at_label (series_sub F (max_axis0 F df) (min_axis0 F df)) c)"
  shows "\<exists>us. col_div F (col_sub F col (at_label (min_axis0 F df) c))
                (at_label (series_sub F (max_axis0 F df) (min_axis0 F df)) c) = FltCol us \<and>
              length us = clen col \<and> list_all unit_interval us"
proof -
  note hi = at_label_max_axis0 [OF m, of F] and lo = at_label_min_axis0 [OF m, of F]
  note den = at_label_range [of F "max_axis0 F df" "min_axis0 F df" c]
  note f = ieee_facts [OF i]
  show ?thesis
  proof (cases col)
    case (IntCol ns)
    show ?thesis
    proof (cases ns)
      case Nil
      with IntCol have "\<not> is_int (col_max col)" by simp
      from frame_not_int [OF m this] IntCol Nil p show ?thesis
        by (simp add: den hi lo)
    next
      case (Cons n ms)
      define h0 where "h0 = fold wmax ms n"
      define l0 where "l0 = fold wmin ms n"
      have b: "\<forall>k \<in> set ns. sint l0 \<le> sint k \<and> sint k \<le> sint h0"
        using fold_wmax [of n ms] fold_wmin [of ms n] Cons by (auto simp: h0_def l0_def)
      have cm: "col_max col = I64 h0" "col_min col = I64 l0"
        using IntCol Cons by (simp_all add: h0_def l0_def)
      show ?thesis
      proof (cases "list_all (\<lambda>cv. is_int (col_max (snd cv))) (cols df)")
        case True
        with hi lo cm have hl: "at_label (max_axis0 F df) c = I64 h0"
          "at_label (min_axis0 F df) c = I64 l0"
          by simp_all
        with p den have pos: "0 < sint (h0 - l0)" by simp
        have "unit_interval (fdiv F (I64 (k - l0)) (I64 (h0 - l0)))" if "k \<in> set ns" for k
          using scaled_int [OF i _ _ pos, of k] b that by auto
        then show ?thesis
          by (simp add: IntCol den hl list_all_iff comp_def)
      next
        case False
        define h where "h = rnd F (of_int (sint h0))"
        define l where "l = rnd F (of_int (sint l0))"
        from False hi lo cm to_float_I64 [OF i] have hl: "at_label (max_axis0 F df) c = F64 (Fin h)"
          "at_label (min_axis0 F df) c = F64 (Fin l)"
          by (simp_all add: h_def l_def del: to_float.simps(1))
        from p den hl have pos: "positive (F64 (fsub_f F (Fin h) (Fin l)))" by simp
        have "\<forall>x \<in> set (map (\<lambda>k. to_float F (I64 k)) ns). \<exists>a. x = Fin a \<and> l \<le> a \<and> a \<le> h"
          using b f(1) by (auto simp: to_float_I64 [OF i] h_def l_def simp del: to_float.simps(1) of_int_sint)
        from scaled_float_cells [OF i this pos] show ?thesis
          by (simp add: IntCol den hl comp_def del: to_float.simps(1))
      qed
    qed
  next
    case (FltCol xs)
    with nm have fin: "list_all is_finite xs" by simp
    from FltCol have ni: "\<not> is_int (col_max col)" by simp
    note nf = frame_not_int [OF m ni]
    show ?thesis
    proof (cases xs)
      case Nil
      with FltCol nf p show ?thesis
        by (simp add: den hi lo)
    next
      case (Cons x ys)
      then have ne: "xs \<noteq> []" by simp
      from float_column_range [OF fin ne] obtain l h where
        r: "fold fmin_f xs NaN = Fin l" "fold fmax_f xs NaN = Fin h"
           "\<forall>b. Fin b \<in> set xs \<longrightarrow> l \<le> b \<and> b \<le> h"
        by blast
      from nf hi lo FltCol r have hl: "at_label (max_axis0 F df) c = F64 (Fin h)"
        "at_label (min_axis0 F df) c = F64 (Fin l)"
        by simp_all
      from p den hl have pos: "positive (F64 (fsub_f F (Fin h) (Fin l)))" by simp
      have "\<forall>x \<in> set xs. \<exists>a. x = Fin a \<and> l \<le> a \<and> a \<le> h"
        using fin r(3) by (auto simp: list_all_iff is_finite_iff)
      from scaled_float_cells [OF i this pos] show ?thesis
        by (simp add: FltCol den hl comp_def)
    qed
  qed
qed






lemma demo_lib_ieee: "ieee demo_lib"
proof -
  have "demo_rnd a \<le> demo_rnd b" if "a \<le> b" for a b
  proof -
    from that have "\<lfloor>a * 2 ^ 20 + 1 / 2\<rfloor> \<le> \<lfloor>b * 2 ^ 20 + 1 / 2\<rfloor>"
      by (intro floor_mono) simp
    then show ?thesis
      by (simp add: demo_rnd_def divide_right_mono)
  qed
  then have "mono demo_rnd"
    by (rule monoI)
  moreover have "demo_rnd 0 = 0" "demo_rnd 1 = 1"
    by code_simp+
  ultimately show ?thesis
    by (simp add: ieee_def demo_lib_def)
qed

text \<open>
  Claim C6, as the specification states it: every scaled training value lies in
  \<open>[0, 1]\<close> for the columns where the maximum is greater than the minimum. Three
  training frames of one column each, whose maximum is greater than its minimum, on
  which the four statements raise nothing: a column with a missing value, whose
  rescaled values are \<open>0\<close>, \<^verbatim>\<open>NaN\<close> and \<open>1\<close>; a column whose range is beyond the
  largest finite value of the floating-point unit, whose first rescaled value is
  infinity divided by infinity, \<^verbatim>\<open>NaN\<close>; and an \<^verbatim>\<open>int64\<close> column whose range wraps
  around to a negative number, whose second rescaled value is \<open>-1/2\<close>.
\<close>

theorem scaled_training_value_outside_unit_interval:
  "vars (split_world missing_train missing_train) ''df_train'' = Some (Frame missing_train) \<and>
   fst (run demo_lib scale_step (split_world missing_train missing_train)) = None \<and>
   fless demo_lib (at_label (min_axis0 demo_lib missing_train) ''x'')
                  (at_label (max_axis0 demo_lib missing_train) ''x'') \<and>
   vars (snd (run demo_lib scale_step (split_world missing_train missing_train))) ''df_train''
     = Some (Frame \<lparr>index = [0, 1, 2], cols = [(''x'', FltCol [Fin 0, NaN, Fin 1])]\<rparr>) \<and>
   \<not> unit_interval NaN \<and>
   vars (split_world wide_train wide_train) ''df_train'' = Some (Frame wide_train) \<and>
   fst (run demo_lib scale_step (split_world wide_train wide_train)) = None \<and>
   fless demo_lib (at_label (min_axis0 demo_lib wide_train) ''x'')
                  (at_label (max_axis0 demo_lib wide_train) ''x'') \<and>
   vars (snd (run demo_lib scale_step (split_world wide_train wide_train))) ''df_train''
     = Some (Frame \<lparr>index = [0, 1, 2], cols = [(''x'', FltCol [NaN, Fin 0, Fin 0])]\<rparr>) \<and>
   vars (split_world wrapping_train wrapping_train) ''df_train'' = Some (Frame wrapping_train) \<and>
   fst (run demo_lib scale_step (split_world wrapping_train wrapping_train)) = None \<and>
   fless demo_lib (at_label (min_axis0 demo_lib wrapping_train) ''n'')
                  (at_label (max_axis0 demo_lib wrapping_train) ''n'') \<and>
   vars (snd (run demo_lib scale_step (split_world wrapping_train wrapping_train))) ''df_train''
     = Some (Frame \<lparr>index = [0, 1, 2], cols = [(''n'', FltCol [Fin 0, Fin (- 1 / 2), Fin 1])]\<rparr>) \<and>
   \<not> unit_interval (Fin (- 1 / 2))"
proof -
  have a: "vars (split_world missing_train missing_train) ''df_train'' = Some (Frame missing_train)"
    "vars (split_world wide_train wide_train) ''df_train'' = Some (Frame wide_train)"
    "vars (split_world wrapping_train wrapping_train) ''df_train'' = Some (Frame wrapping_train)"
    by (simp_all add: split_world_def)
  have v: "vars (split_world missing_train missing_train) ''df_valid'' = Some (Frame missing_train)"
    "vars (split_world wide_train wide_train) ''df_valid'' = Some (Frame wide_train)"
    "vars (split_world wrapping_train wrapping_train) ''df_valid'' = Some (Frame wrapping_train)"
    by (simp_all add: split_world_def)
  note r1 = run_scale_step [OF a(1) v(1), of demo_lib]
    and r2 = run_scale_step [OF a(2) v(2), of demo_lib]
    and r3 = run_scale_step [OF a(3) v(3), of demo_lib]
  have b: "fst (run demo_lib scale_step (split_world missing_train missing_train)) = None"
    "fst (run demo_lib scale_step (split_world wide_train wide_train)) = None"
    "fst (run demo_lib scale_step (split_world wrapping_train wrapping_train)) = None"
    by (rule r1(1), rule r2(1), rule r3(1))
  have c: "fless demo_lib (at_label (min_axis0 demo_lib missing_train) ''x'')
                  (at_label (max_axis0 demo_lib missing_train) ''x'')"
    "fless demo_lib (at_label (min_axis0 demo_lib wide_train) ''x'')
                  (at_label (max_axis0 demo_lib wide_train) ''x'')"
    "fless demo_lib (at_label (min_axis0 demo_lib wrapping_train) ''n'')
                  (at_label (max_axis0 demo_lib wrapping_train) ''n'')"
    by code_simp+
  have d: "rescale demo_lib missing_train (min_axis0 demo_lib missing_train) (max_axis0 demo_lib missing_train)
      = \<lparr>index = [0, 1, 2], cols = [(''x'', FltCol [Fin 0, NaN, Fin 1])]\<rparr>"
    "rescale demo_lib wide_train (min_axis0 demo_lib wide_train) (max_axis0 demo_lib wide_train)
      = \<lparr>index = [0, 1, 2], cols = [(''x'', FltCol [NaN, Fin 0, Fin 0])]\<rparr>"
    "rescale demo_lib wrapping_train (min_axis0 demo_lib wrapping_train) (max_axis0 demo_lib wrapping_train)
      = \<lparr>index = [0, 1, 2], cols = [(''n'', FltCol [Fin 0, Fin (- 1 / 2), Fin 1])]\<rparr>"
    by code_simp+
  have e: "vars (snd (run demo_lib scale_step (split_world missing_train missing_train))) ''df_train''
     = Some (Frame \<lparr>index = [0, 1, 2], cols = [(''x'', FltCol [Fin 0, NaN, Fin 1])]\<rparr>)"
    "vars (snd (run demo_lib scale_step (split_world wide_train wide_train))) ''df_train''
     = Some (Frame \<lparr>index = [0, 1, 2], cols = [(''x'', FltCol [NaN, Fin 0, Fin 0])]\<rparr>)"
    "vars (snd (run demo_lib scale_step (split_world wrapping_train wrapping_train))) ''df_train''
     = Some (Frame \<lparr>index = [0, 1, 2], cols = [(''n'', FltCol [Fin 0, Fin (- 1 / 2), Fin 1])]\<rparr>)"
    by (simp_all add: r1(2) r2(2) r3(2) d)
  from a b c e show ?thesis
    by simp
qed

text \<open>
  Claim C6, amended: in the early stopping notebook both frames are rescaled by
  \<^verbatim>\<open>(x - min_) / (max_ - min_)\<close>, where \<^verbatim>\<open>min_\<close> and \<^verbatim>\<open>max_\<close> are the column minima
  and maxima of the training frame only, and the four statements raise nothing
  (frames have distinct column labels, as \<^verbatim>\<open>read_csv\<close> makes them). With a
  floating-point unit that rounds as IEEE 754 requires, every rescaled value of a
  training column lies in \<open>[0, 1]\<close> when the column has no missing value and its
  range \<^verbatim>\<open>max_ - min_\<close>, as the cell computes it, is a positive finite number (it did
  not overflow or wrap around). A rescaled validation value need not: in the small
  frames the rescaled validation value of \<^verbatim>\<open>alcohol\<close> is greater than one.
\<close>

theorem scaling_uses_training_range:
  assumes "ieee L"
    and "vars w ''df_train'' = Some (Frame df_train)"
    and "vars w ''df_valid'' = Some (Frame df_valid)"
    and "distinct (labels df_train)"
    and "distinct (labels df_valid)"
  shows "fst (run L scale_step w) = None \<and>
     vars (snd (run L scale_step w)) ''max_'' = Some (Series (max_axis0 L df_train)) \<and>
     vars (snd (run L scale_step w)) ''min_'' = Some (Series (min_axis0 L df_train)) \<and>
     vars (snd (run L scale_step w)) ''df_train''
       = Some (Frame (rescale L df_train (min_axis0 L df_train) (max_axis0 L df_train))) \<and>
     vars (snd (run L scale_step w)) ''df_valid''
       = Some (Frame (rescale L df_valid (min_axis0 L df_train) (max_axis0 L df_train))) \<and>
     (\<forall>c col.
        map_of (cols df_train) c = Some col \<and> no_missing col \<and>
        positive (at_label (series_sub L (max_axis0 L df_train) (min_axis0 L df_train)) c) \<longrightarrow>
        (\<exists>us. map_of (cols (rescale L df_train (min_axis0 L df_train) (max_axis0 L df_train))) c
                 = Some (FltCol us) \<and>
              length us = clen col \<and> list_all unit_interval us)) \<and>
     (\<exists>col us.
        ieee demo_lib \<and> map_of (cols small_train) ''alcohol'' = Some col \<and> no_missing col \<and>
        positive (at_label (series_sub demo_lib (max_axis0 demo_lib small_train)
                              (min_axis0 demo_lib small_train)) ''alcohol'') \<and>
        map_of (cols (rescale demo_lib small_valid (min_axis0 demo_lib small_train)
                        (max_axis0 demo_lib small_train))) ''alcohol'' = Some (FltCol us) \<and>
        \<not> list_all unit_interval us)"
proof (intro conjI)
  note r = run_scale_step [OF assms(2,3), of L]
  show "fst (run L scale_step w) = None"
    by (rule r(1))
  show "vars (snd (run L scale_step w)) ''max_'' = Some (Series (max_axis0 L df_train))"
    by (simp add: r(2))
  show "vars (snd (run L scale_step w)) ''min_'' = Some (Series (min_axis0 L df_train))"
    by (simp add: r(2))
  show "vars (snd (run L scale_step w)) ''df_train''
       = Some (Frame (rescale L df_train (min_axis0 L df_train) (max_axis0 L df_train)))"
    by (simp add: r(2))
  show "vars (snd (run L scale_step w)) ''df_valid''
       = Some (Frame (rescale L df_valid (min_axis0 L df_train) (max_axis0 L df_train)))"
    by (simp add: r(2))
  show "\<forall>c col.
        map_of (cols df_train) c = Some col \<and> no_missing col \<and>
        positive (at_label (series_sub L (max_axis0 L df_train) (min_axis0 L df_train)) c) \<longrightarrow>
        (\<exists>us. map_of (cols (rescale L df_train (min_axis0 L df_train) (max_axis0 L df_train))) c
                 = Some (FltCol us) \<and>
              length us = clen col \<and> list_all unit_interval us)"
  proof (intro allI impI)
    fix c col
    assume h: "map_of (cols df_train) c = Some col \<and> no_missing col \<and>
        positive (at_label (series_sub L (max_axis0 L df_train) (min_axis0 L df_train)) c)"
    then have m: "map_of (cols df_train) c = Some col" and nm: "no_missing col"
      and p: "positive (at_label (series_sub L (max_axis0 L df_train) (min_axis0 L df_train)) c)"
      by simp_all
    from scaled_training_column [OF assms(1) m nm p] map_of_rescale [OF m, of L]
    show "\<exists>us. map_of (cols (rescale L df_train (min_axis0 L df_train) (max_axis0 L df_train))) c
                 = Some (FltCol us) \<and>
              length us = clen col \<and> list_all unit_interval us"
      by simp
  qed
  have a: "map_of (cols small_train) ''alcohol'' = Some (FltCol [Fin (94 / 10), Fin (98 / 10), Fin 10])"
    by (simp add: small_train_def)
  have b: "positive (at_label (series_sub demo_lib (max_axis0 demo_lib small_train)
                              (min_axis0 demo_lib small_train)) ''alcohol'')"
    by code_simp
  have c: "map_of (cols (rescale demo_lib small_valid (min_axis0 demo_lib small_train)
                        (max_axis0 demo_lib small_train))) ''alcohol''
             = Some (FltCol [Fin (1922389 / 1048576)])"
    by code_simp
  have d: "\<not> list_all unit_interval [Fin (1922389 / 1048576)]"
    by simp
  from demo_lib_ieee a b c d show "\<exists>col us.
        ieee demo_lib \<and> map_of (cols small_train) ''alcohol'' = Some col \<and> no_missing col \<and>
        positive (at_label (series_sub demo_lib (max_axis0 demo_lib small_train)
                              (min_axis0 demo_lib small_train)) ''alcohol'') \<and>
        map_of (cols (rescale demo_lib small_valid (min_axis0 demo_lib small_train)
                        (max_axis0 demo_lib small_train))) ''alcohol'' = Some (FltCol us) \<and>
        \<not> list_all unit_interval us"
    by (intro exI [of _ "FltCol [Fin (94 / 10), Fin (98 / 10), Fin 10]"]
        exI [of _ "[Fin (1922389 / 1048576)]"]) simp
qed

theorem scaling_uses_training_range_witness:
  "ieee demo_lib \<and>
   vars (split_world small_train small_valid) ''df_train'' = Some (Frame small_train) \<and>
   vars (split_world small_train small_valid) ''df_valid'' = Some (Frame small_valid) \<and>
   distinct (labels small_train) \<and> distinct (labels small_valid) \<and>
   map_of (cols small_train) ''alcohol'' = Some (FltCol [Fin (94 / 10), Fin (98 / 10), Fin 10]) \<and>
   no_missing (FltCol [Fin (94 / 10), Fin (98 / 10), Fin 10]) \<and>
   positive (at_label (series_sub demo_lib (max_axis0 demo_lib small_train)
                         (min_axis0 demo_lib small_train)) ''alcohol'') \<and>
   fst (run demo_lib scale_step (split_world small_train small_valid)) = None \<and>
   map_of (cols (rescale demo_lib small_train (min_axis0 demo_lib small_train)
                   (max_axis0 demo_lib small_train))) ''alcohol''
     = Some (FltCol [Fin 0, Fin (349525 / 524288), Fin 1]) \<and>
   list_all unit_interval [Fin 0, Fin (349525 / 524288), Fin 1]"
proof -
  have a: "vars (split_world small_train small_valid) ''df_train'' = Some (Frame small_train)"
    and b: "vars (split_world small_train small_valid) ''df_valid'' = Some (Frame small_valid)"
    by (simp_all add: split_world_def)
  have c: "map_of (cols small_train) ''alcohol'' = Some (FltCol [Fin (94 / 10), Fin (98 / 10), Fin 10])"
    by (simp add: small_train_def)
  have d: "no_missing (FltCol [Fin (94 / 10), Fin (98 / 10), Fin 10])"
    by simp
  have e: "positive (at_label (series_sub demo_lib (max_axis0 demo_lib small_train)
                         (min_axis0 demo_lib small_train)) ''alcohol'')"
    by code_simp
  have f: "map_of (cols (rescale demo_lib small_train (min_axis0 demo_lib small_train)
                   (max_axis0 demo_lib small_train))) ''alcohol''
     = Some (FltCol [Fin 0, Fin (349525 / 524288), Fin 1])"
    by code_simp
  have dl: "distinct (labels small_train)" "distinct (labels small_valid)"
    by (simp_all add: labels_def small_train_def small_valid_def)
  note t = scaling_uses_training_range [OF demo_lib_ieee a b dl]
  from t have g: "fst (run demo_lib scale_step (split_world small_train small_valid)) = None"
    by blast
  from t c d e have "\<exists>us. map_of (cols (rescale demo_lib small_train (min_axis0 demo_lib small_train)
                   (max_axis0 demo_lib small_train))) ''alcohol'' = Some (FltCol us) \<and>
              length us = clen (FltCol [Fin (94 / 10), Fin (98 / 10), Fin 10]) \<and>
              list_all unit_interval us"
    by blast
  with f have h: "list_all unit_interval [Fin 0, Fin (349525 / 524288), Fin 1]"
    by simp
  from demo_lib_ieee a b dl c d e f g h show ?thesis
    by blast
qed



section \<open>Runs of the early stopping notebook that raise nothing\<close>

lemma map_of_label: "c \<in> set (labels df) \<Longrightarrow> \<exists>col. map_of (cols df) c = Some col"
  by (cases "map_of (cols df) c") (auto simp: labels_def map_of_eq_None_iff)

lemma labels_rescale_training:
  "labels dv = labels dt \<Longrightarrow>
   labels (rescale F dv (min_axis0 F dt) (max_axis0 F dt)) = labels dv"
  by (rule labels_rescale) (simp_all add: labels_min_axis0 labels_max_axis0)

text \<open>
  The data cell of the early stopping notebook raises nothing when the file is read,
  the drawn positions are rows of the frame and the frame has a column \<^verbatim>\<open>quality\<close>:
  the rescaling never raises, whatever the cells hold.
\<close>

lemma early_stopping_data_cell_runs:
  assumes rd: "read_csv L (fs w) ''../data/red-wine.csv'' = Inr rw"
    and tk: "take_rows rw (fst (draw L (RandomState L 0) (7 / 10) (nrows rw))) = Inr dt"
    and dr: "drop_rows rw (index dt) = Inr dv"
    and q: "''quality'' \<in> set (labels rw)"
  shows "fst (run L early_stopping_data_cell w) = None"
    and "vars (snd (run L early_stopping_data_cell w)) ''red_wine'' = Some (Frame rw)"
proof -
  from tk have lt: "labels dt = labels rw"
    by (rule take_rows_labels)
  from dr have lv: "labels dv = labels rw"
    by (rule drop_rows_labels)
  have l1: "labels (rescale L dt (min_axis0 L dt) (max_axis0 L dt)) = labels rw"
    using labels_rescale_training [of dt dt L] lt by simp
  have l2: "labels (rescale L dv (min_axis0 L dt) (max_axis0 L dt)) = labels rw"
    using labels_rescale_training [of dv dt L] lt lv by simp
  from q l1 map_of_label [of "''quality''" "rescale L dt (min_axis0 L dt) (max_axis0 L dt)"]
  obtain yt where yt: "map_of (cols (rescale L dt (min_axis0 L dt) (max_axis0 L dt))) ''quality'' = Some yt"
    by auto
  from q l2 map_of_label [of "''quality''" "rescale L dv (min_axis0 L dt) (max_axis0 L dt)"]
  obtain yv where yv: "map_of (cols (rescale L dv (min_axis0 L dt) (max_axis0 L dt))) ''quality'' = Some yv"
    by auto
  show "fst (run L early_stopping_data_cell w) = None"
    unfolding early_stopping_data_cell_def load_and_split_def split_step_def scale_step_def
      features_and_target_def
    by (simp add: and_then_def get_frame_def get_series_def assign_def emit_def touch_def sample_seeded
        drop_column_def get_column_def rd tk dr q l1 l2 yt yv)
  show "vars (snd (run L early_stopping_data_cell w)) ''red_wine'' = Some (Frame rw)"
    unfolding early_stopping_data_cell_def load_and_split_def split_step_def scale_step_def
      features_and_target_def
    by (simp add: and_then_def get_frame_def get_series_def assign_def emit_def touch_def sample_seeded
        drop_column_def get_column_def rd tk dr q l1 l2 yt yv)
qed

text \<open>
  The whole notebook, with a training loop that returns the same history whatever it
  is called with, or that raises the same exception whatever it is called with.
\<close>

lemma early_stopping_notebook_runs:
  assumes rd: "read_csv L (fs w) ''../data/red-wine.csv'' = Inr rw"
    and tk: "take_rows rw (fst (draw L (RandomState L 0) (7 / 10) (nrows rw))) = Inr dt"
    and dr: "drop_rows rw (index dt) = Inr dv"
    and q: "''quality'' \<in> set (labels rw)"
    and fit: "\<And>a. keras_fit L a = Inr h"
    and hf: "history_frame h = Inr hdf"
    and sel: "map_of (cols hdf) ''loss'' = Some cl"
    and vl: "map_of (cols hdf) ''val_loss'' = Some cv"
  shows "fst (run L (concat early_stopping_notebook) w) = None"
proof -
  from tk have lt: "labels dt = labels rw"
    by (rule take_rows_labels)
  from dr have lv: "labels dv = labels rw"
    by (rule drop_rows_labels)
  have l1: "labels (rescale L dt (min_axis0 L dt) (max_axis0 L dt)) = labels rw"
    using labels_rescale_training [of dt dt L] lt by simp
  have l2: "labels (rescale L dv (min_axis0 L dt) (max_axis0 L dt)) = labels rw"
    using labels_rescale_training [of dv dt L] lt lv by simp
  from q l1 map_of_label [of "''quality''" "rescale L dt (min_axis0 L dt) (max_axis0 L dt)"]
  obtain yt where yt: "map_of (cols (rescale L dt (min_axis0 L dt) (max_axis0 L dt))) ''quality'' = Some yt"
    by auto
  from q l2 map_of_label [of "''quality''" "rescale L dv (min_axis0 L dt) (max_axis0 L dt)"]
  obtain yv where yv: "map_of (cols (rescale L dv (min_axis0 L dt) (max_axis0 L dt))) ''quality'' = Some yv"
    by auto
  show ?thesis
    unfolding early_stopping_notebook_def early_stopping_data_cell_def load_and_split_def
      split_step_def scale_step_def features_and_target_def
    by (simp add: and_then_def get_frame_def get_series_def get_column_var_def get_model_def
        get_callback_def get_history_def assign_def emit_def touch_def sample_seeded
        drop_column_def get_column_def rd tk dr q l1 l2 yt yv fit hf sel vl)
qed

lemma early_stopping_notebook_fit_fails:
  assumes rd: "read_csv L (fs w) ''../data/red-wine.csv'' = Inr rw"
    and tk: "take_rows rw (fst (draw L (RandomState L 0) (7 / 10) (nrows rw))) = Inr dt"
    and dr: "drop_rows rw (index dt) = Inr dv"
    and q: "''quality'' \<in> set (labels rw)"
    and fit: "\<And>a. keras_fit L a = Inl e"
  shows "fst (run L (concat early_stopping_notebook) w) = Some e"
proof -
  from tk have lt: "labels dt = labels rw"
    by (rule take_rows_labels)
  from dr have lv: "labels dv = labels rw"
    by (rule drop_rows_labels)
  have l1: "labels (rescale L dt (min_axis0 L dt) (max_axis0 L dt)) = labels rw"
    using labels_rescale_training [of dt dt L] lt by simp
  have l2: "labels (rescale L dv (min_axis0 L dt) (max_axis0 L dt)) = labels rw"
    using labels_rescale_training [of dv dt L] lt lv by simp
  from q l1 map_of_label [of "''quality''" "rescale L dt (min_axis0 L dt) (max_axis0 L dt)"]
  obtain yt where yt: "map_of (cols (rescale L dt (min_axis0 L dt) (max_axis0 L dt))) ''quality'' = Some yt"
    by auto
  from q l2 map_of_label [of "''quality''" "rescale L dv (min_axis0 L dt) (max_axis0 L dt)"]
  obtain yv where yv: "map_of (cols (rescale L dv (min_axis0 L dt) (max_axis0 L dt))) ''quality'' = Some yv"
    by auto
  show ?thesis
    unfolding early_stopping_notebook_def early_stopping_data_cell_def load_and_split_def
      split_step_def scale_step_def features_and_target_def
    by (simp add: and_then_def get_frame_def get_series_def get_column_var_def get_model_def
        get_callback_def get_history_def assign_def emit_def touch_def sample_seeded
        drop_column_def get_column_def rd tk dr q l1 l2 yt yv fit)
qed

text \<open>The demonstration session meets these conditions.\<close>

lemma demo_session:
  "read_csv demo_lib (fs demo_world) ''../data/red-wine.csv'' = Inr demo_frame"
  "take_rows demo_frame (fst (draw demo_lib (RandomState demo_lib 0) (7 / 10) (nrows demo_frame)))
     = Inr demo_train"
  "drop_rows demo_frame (index demo_train) = Inr demo_valid"
  "''quality'' \<in> set (labels demo_frame)"
  "history_frame [(''loss'', [Fin (1 / 2), Fin (1 / 4)]), (''val_loss'', [Fin (3 / 5), Fin (2 / 5)])]
     = Inr \<lparr>index = [0, 1],
            cols = [(''loss'', FltCol [Fin (1 / 2), Fin (1 / 4)]),
                    (''val_loss'', FltCol [Fin (3 / 5), Fin (2 / 5)])]\<rparr>"
  "map_of
     (cols \<lparr>index = [0, 1],
            cols = [(''loss'', FltCol [Fin (1 / 2), Fin (1 / 4)]),
                    (''val_loss'', FltCol [Fin (3 / 5), Fin (2 / 5)])]\<rparr>) ''loss''
     = Some (FltCol [Fin (1 / 2), Fin (1 / 4)])"
  "map_of
     (cols \<lparr>index = [0, 1],
            cols = [(''loss'', FltCol [Fin (1 / 2), Fin (1 / 4)]),
                    (''val_loss'', FltCol [Fin (3 / 5), Fin (2 / 5)])]\<rparr>) ''val_loss''
     = Some (FltCol [Fin (3 / 5), Fin (2 / 5)])"
  by code_simp+

lemma demo_fit:
  "keras_fit demo_lib a
     = Inr [(''loss'', [Fin (1 / 2), Fin (1 / 4)]), (''val_loss'', [Fin (3 / 5), Fin (2 / 5)])]"
  "keras_fit shape_mismatch_lib a
     = Inl (ValueError ''Input 0 of layer sequential is incompatible with the layer'')"
  by (simp_all add: demo_lib_def shape_mismatch_lib_def)

lemma shape_mismatch_session:
  "read_csv shape_mismatch_lib (fs demo_world) ''../data/red-wine.csv'' = Inr demo_frame"
  "take_rows demo_frame
     (fst (draw shape_mismatch_lib (RandomState shape_mismatch_lib 0) (7 / 10) (nrows demo_frame)))
     = Inr demo_train"
  by code_simp+

lemma demo_runs:
  "fst (run demo_lib early_stopping_data_cell demo_world) = None"
  "vars (snd (run demo_lib early_stopping_data_cell demo_world)) ''red_wine'' = Some (Frame demo_frame)"
  "fst (run demo_lib (concat early_stopping_notebook) demo_world) = None"
  "fst (run shape_mismatch_lib (concat early_stopping_notebook) demo_world)
     = Some (ValueError ''Input 0 of layer sequential is incompatible with the layer'')"
proof -
  note s = demo_session
  show "fst (run demo_lib early_stopping_data_cell demo_world) = None"
    by (rule early_stopping_data_cell_runs(1) [OF s(1-4)])
  show "vars (snd (run demo_lib early_stopping_data_cell demo_world)) ''red_wine'' = Some (Frame demo_frame)"
    by (rule early_stopping_data_cell_runs(2) [OF s(1-4)])
  show "fst (run demo_lib (concat early_stopping_notebook) demo_world) = None"
    by (rule early_stopping_notebook_runs [OF s(1-4) demo_fit(1) s(5-7)])
  show "fst (run shape_mismatch_lib (concat early_stopping_notebook) demo_world)
     = Some (ValueError ''Input 0 of layer sequential is incompatible with the layer'')"
    by (rule early_stopping_notebook_fit_fails [OF shape_mismatch_session s(3,4) demo_fit(2)])
qed

section \<open>The features and the input shape\<close>

lemma run_append:
  "run L (a @ b) w =
     (case run L a w of (None, w1) \<Rightarrow> run L b w1 | (Some e, w1) \<Rightarrow> (Some e, w1))"
  by (induction a arbitrary: w) (auto split: sum.splits)

lemma run_append_None_iff:
  "run L (a @ b) w = (None, w') \<longleftrightarrow> (\<exists>w1. run L a w = (None, w1) \<and> run L b w1 = (None, w'))"
  by (auto simp: run_append split: prod.splits option.splits)

lemma vars_emit: "vars (emit out w) = vars w"
  by (simp add: emit_def)

lemma run_features_and_target:
  assumes "run L features_and_target w = (None, w')"
    and "vars w ''df_train'' = Some (Frame dt)"
    and "vars w ''df_valid'' = Some (Frame dv)"
  shows "\<exists>xt xv yt yv.
           drop_column dt ''quality'' = Inr xt \<and> drop_column dv ''quality'' = Inr xv \<and>
           get_column dt ''quality'' = Inr yt \<and> get_column dv ''quality'' = Inr yv \<and>
           vars w' = (vars w)(''X_train'' \<mapsto> Frame xt, ''X_valid'' \<mapsto> Frame xv,
                              ''y_train'' \<mapsto> Column yt, ''y_valid'' \<mapsto> Column yv)"
  using assms
  unfolding features_and_target_def
  by (auto simp del: run.simps simp add: run_Cons_None_iff run_Nil_iff and_then_Inr_iff
      get_frame_Inr_iff vars_assign)

lemma drop_column_labels:
  "drop_column df c = Inr d \<Longrightarrow> c \<in> set (labels df) \<and> labels d = filter (\<lambda>l. l \<noteq> c) (labels df)"
  by (auto simp: drop_column_def labels_def filter_map comp_def split: if_splits)

lemma length_filter_distinct:
  "distinct xs \<Longrightarrow> c \<in> set xs \<Longrightarrow> Suc (length (filter (\<lambda>l. l \<noteq> c) xs)) = length xs"
proof (induction xs)
  case Nil
  then show ?case by simp
next
  case (Cons x xs)
  show ?case
  proof (cases "x = c")
    case True
    with Cons.prems have "c \<notin> set xs" by simp
    then have "filter (\<lambda>l. l \<noteq> c) xs = xs" by (auto simp: filter_id_conv)
    with True show ?thesis by simp
  next
    case False
    with Cons show ?thesis by simp
  qed
qed

lemma fitted_models_input_shape: "\<forall>m \<in> set fitted_models. layer_input_shape (hd m) = Some [11]"
  by (simp add: fitted_models_def dropout_model_def early_stopping_model_def)

text \<open>The frames a data cell leaves in the session when it raises nothing.\<close>

lemma run_dropout_data_cell:
  assumes "run L dropout_data_cell w = (None, w')"
  shows "\<exists>rw dt dv xt xv.
           vars w' ''red_wine'' = Some (Frame rw) \<and> labels dt = labels rw \<and> labels dv = labels rw \<and>
           drop_column dt ''quality'' = Inr xt \<and> drop_column dv ''quality'' = Inr xv \<and>
           vars w' ''X_train'' = Some (Frame xt) \<and> vars w' ''X_valid'' = Some (Frame xv)"
proof -
  from assms obtain w1 w2 where
    r1: "run L load_and_split w1 = (None, w2)" and
    r2: "run L features_and_target w2 = (None, w')"
    unfolding dropout_data_cell_def
    by (auto simp del: run.simps simp add: run_Cons_None_iff run_append_None_iff)
  from run_load_and_split [OF r1] obtain rw dt dv where
    tr: "fst (sample L (7 / 10) (Some 0) rw (np_random w1)) = Inr dt" and
    va: "drop_rows rw (index dt) = Inr dv" and
    v2: "vars w2 = (vars w1)(''red_wine'' \<mapsto> Frame rw, ''df_train'' \<mapsto> Frame dt,
                              ''df_valid'' \<mapsto> Frame dv)"
    by blast
  from tr have lt: "labels dt = labels rw"
    by (auto simp: sample_seeded dest: take_rows_labels)
  from va have lv: "labels dv = labels rw"
    by (rule drop_rows_labels)
  from v2 have "vars w2 ''df_train'' = Some (Frame dt)" "vars w2 ''df_valid'' = Some (Frame dv)"
    by simp_all
  from run_features_and_target [OF r2 this] obtain xt xv yt yv where
    x: "drop_column dt ''quality'' = Inr xt" "drop_column dv ''quality'' = Inr xv" and
    v3: "vars w' = (vars w2)(''X_train'' \<mapsto> Frame xt, ''X_valid'' \<mapsto> Frame xv,
                              ''y_train'' \<mapsto> Column yt, ''y_valid'' \<mapsto> Column yv)"
    by blast
  from v2 v3 have "vars w' ''red_wine'' = Some (Frame rw)"
    "vars w' ''X_train'' = Some (Frame xt)" "vars w' ''X_valid'' = Some (Frame xv)"
    by simp_all
  with lt lv x show ?thesis by blast
qed

lemma run_early_stopping_data_cell:
  assumes "run L early_stopping_data_cell w = (None, w')"
  shows "\<exists>rw dt dv xt xv.
           vars w' ''red_wine'' = Some (Frame rw) \<and> labels dt = labels rw \<and> labels dv = labels rw \<and>
           drop_column dt ''quality'' = Inr xt \<and> drop_column dv ''quality'' = Inr xv \<and>
           vars w' ''X_train'' = Some (Frame xt) \<and> vars w' ''X_valid'' = Some (Frame xv)"
proof -
  from assms obtain w1 w2 w3 w4 where
    r1: "run L load_and_split w1 = (None, w2)" and
    r2: "exec L (DisplayHead ''df_train'' 4) w2 = Inr w3" and
    r3: "run L scale_step w3 = (None, w4)" and
    r4: "run L features_and_target w4 = (None, w')"
    unfolding early_stopping_data_cell_def
    by (auto simp del: run.simps simp add: run_Cons_None_iff run_Nil_iff run_append_None_iff)
  from run_load_and_split [OF r1] obtain rw dt dv where
    tr: "fst (sample L (7 / 10) (Some 0) rw (np_random w1)) = Inr dt" and
    va: "drop_rows rw (index dt) = Inr dv" and
    v2: "vars w2 = (vars w1)(''red_wine'' \<mapsto> Frame rw, ''df_train'' \<mapsto> Frame dt,
                              ''df_valid'' \<mapsto> Frame dv)"
    by blast
  from tr have lt: "labels dt = labels rw"
    by (auto simp: sample_seeded dest: take_rows_labels)
  from va have lv: "labels dv = labels rw"
    by (rule drop_rows_labels)
  from r2 have v3: "vars w3 = vars w2"
    by (auto simp: and_then_Inr_iff vars_emit)
  with v2 have f3: "vars w3 ''df_train'' = Some (Frame dt)" "vars w3 ''df_valid'' = Some (Frame dv)"
    by simp_all
  from r3 have "w4 = snd (run L scale_step w3)"
    by simp
  with run_scale_step(2) [OF f3, of L] have v4:
    "vars w4 = (vars w3)(''max_'' \<mapsto> Series (max_axis0 L dt), ''min_'' \<mapsto> Series (min_axis0 L dt),
        ''df_train'' \<mapsto> Frame (rescale L dt (min_axis0 L dt) (max_axis0 L dt)),
        ''df_valid'' \<mapsto> Frame (rescale L dv (min_axis0 L dt) (max_axis0 L dt)))"
    by simp
  then have f4: "vars w4 ''df_train'' = Some (Frame (rescale L dt (min_axis0 L dt) (max_axis0 L dt)))"
    "vars w4 ''df_valid'' = Some (Frame (rescale L dv (min_axis0 L dt) (max_axis0 L dt)))"
    by simp_all
  have l4: "labels (rescale L dt (min_axis0 L dt) (max_axis0 L dt)) = labels rw"
    "labels (rescale L dv (min_axis0 L dt) (max_axis0 L dt)) = labels rw"
    using lt lv by (simp_all add: labels_rescale labels_min_axis0 labels_max_axis0)
  from run_features_and_target [OF r4 f4] obtain xt xv yt yv where
    x: "drop_column (rescale L dt (min_axis0 L dt) (max_axis0 L dt)) ''quality'' = Inr xt"
       "drop_column (rescale L dv (min_axis0 L dt) (max_axis0 L dt)) ''quality'' = Inr xv" and
    v5: "vars w' = (vars w4)(''X_train'' \<mapsto> Frame xt, ''X_valid'' \<mapsto> Frame xv,
                              ''y_train'' \<mapsto> Column yt, ''y_valid'' \<mapsto> Column yv)"
    by blast
  from v2 v3 v4 v5 have "vars w' ''red_wine'' = Some (Frame rw)"
    "vars w' ''X_train'' = Some (Frame xt)" "vars w' ''X_valid'' = Some (Frame xv)"
    by simp_all
  with l4 x show ?thesis by blast
qed

text \<open>
  Claim C8: the shape of the data matches the models. In both training notebooks, when
  the data cell raises nothing and the frame read into \<^verbatim>\<open>red_wine\<close> has twelve distinct
  column labels (the stored output of the early stopping notebook shows the twelve
  columns of the red wine data), \<^verbatim>\<open>X_train\<close> and \<^verbatim>\<open>X_valid\<close> are frames with the
  eleven labels other than \<^verbatim>\<open>'quality'\<close>, and eleven is the input shape that the first
  layer of each fitted model declares.
\<close>

theorem features_match_input_shape:
  assumes "cell = dropout_data_cell \<or> cell = early_stopping_data_cell"
    and "run L cell w = (None, w')"
    and "vars w' ''red_wine'' = Some (Frame red_wine)"
    and "length (labels red_wine) = 12"
    and "distinct (labels red_wine)"
  shows "\<exists>X_train X_valid.
           vars w' ''X_train'' = Some (Frame X_train) \<and>
           vars w' ''X_valid'' = Some (Frame X_valid) \<and>
           labels X_train = filter (\<lambda>l. l \<noteq> ''quality'') (labels red_wine) \<and>
           labels X_valid = filter (\<lambda>l. l \<noteq> ''quality'') (labels red_wine) \<and>
           length (labels X_train) = 11 \<and> length (labels X_valid) = 11 \<and>
           (\<forall>m \<in> set fitted_models.
              layer_input_shape (hd m) = Some [length (labels X_train)] \<and>
              layer_input_shape (hd m) = Some [length (labels X_valid)])"
proof -
  from assms(1,2) run_dropout_data_cell [of L w w'] run_early_stopping_data_cell [of L w w']
  obtain rw dt dv xt xv where
    rw: "vars w' ''red_wine'' = Some (Frame rw)" and
    l: "labels dt = labels rw" "labels dv = labels rw" and
    x: "drop_column dt ''quality'' = Inr xt" "drop_column dv ''quality'' = Inr xv" and
    v: "vars w' ''X_train'' = Some (Frame xt)" "vars w' ''X_valid'' = Some (Frame xv)"
    by blast
  from rw assms(3) have eq: "rw = red_wine" by simp
  from drop_column_labels [OF x(1)] drop_column_labels [OF x(2)] l eq
  have q: "''quality'' \<in> set (labels red_wine)"
    and lx: "labels xt = filter (\<lambda>l. l \<noteq> ''quality'') (labels red_wine)"
            "labels xv = filter (\<lambda>l. l \<noteq> ''quality'') (labels red_wine)"
    by simp_all
  from length_filter_distinct [OF assms(5) q] assms(4)
  have n: "length (filter (\<lambda>l. l \<noteq> ''quality'') (labels red_wine)) = 11"
    by simp
  from v lx n fitted_models_input_shape show ?thesis
    by auto
qed

theorem features_match_input_shape_witness:
  "fst (run demo_lib early_stopping_data_cell demo_world) = None \<and>
   vars (snd (run demo_lib early_stopping_data_cell demo_world)) ''red_wine'' = Some (Frame demo_frame) \<and>
   length (labels demo_frame) = 12 \<and> distinct (labels demo_frame) \<and>
   (\<exists>X_train X_valid.
      vars (snd (run demo_lib early_stopping_data_cell demo_world)) ''X_train'' = Some (Frame X_train) \<and>
      vars (snd (run demo_lib early_stopping_data_cell demo_world)) ''X_valid'' = Some (Frame X_valid) \<and>
      length (labels X_train) = 11 \<and> length (labels X_valid) = 11 \<and>
      early_stopping_model \<in> set fitted_models \<and>
      layer_input_shape (hd early_stopping_model) = Some [length (labels X_train)])"
proof -
  have a: "fst (run demo_lib early_stopping_data_cell demo_world) = None"
    by (rule demo_runs(1))
  then have b: "run demo_lib early_stopping_data_cell demo_world =
      (None, snd (run demo_lib early_stopping_data_cell demo_world))"
    by (simp add: prod_eq_iff)
  have c: "vars (snd (run demo_lib early_stopping_data_cell demo_world)) ''red_wine'' = Some (Frame demo_frame)"
    by (rule demo_runs(2))
  have d: "length (labels demo_frame) = 12" and e: "distinct (labels demo_frame)"
    by code_simp+
  have f: "early_stopping_model \<in> set fitted_models"
    by (simp add: fitted_models_def)
  have g: "early_stopping_data_cell = dropout_data_cell \<or> early_stopping_data_cell = early_stopping_data_cell"
    by simp
  from features_match_input_shape [OF g b c d e] a c d e f show ?thesis
    by blast
qed

section \<open>Runs, exceptions and files\<close>

lemma run_Some_split:
  "run L prog w = (Some e, w') \<Longrightarrow>
   \<exists>pre s post. prog = pre @ s # post \<and> run L pre w = (None, w') \<and> exec L s w' = Inl e"
proof (induction prog arbitrary: w)
  case Nil
  then show ?case by simp
next
  case (Cons s prog)
  show ?case
  proof (cases "exec L s w")
    case (Inl e')
    with Cons.prems have "e' = e" "w' = w" by simp_all
    with Inl have "s # prog = [] @ s # prog \<and> run L [] w = (None, w') \<and> exec L s w' = Inl e"
      by simp
    then show ?thesis by blast
  next
    case (Inr w1)
    with Cons.prems have "run L prog w1 = (Some e, w')" by simp
    from Cons.IH [OF this] obtain pre t post where
      p: "prog = pre @ t # post" "run L pre w1 = (None, w')" "exec L t w' = Inl e"
      by blast
    from p Inr have "s # prog = (s # pre) @ t # post \<and> run L (s # pre) w = (None, w') \<and> exec L t w' = Inl e"
      by simp
    then show ?thesis by blast
  qed
qed

lemma run_failing_statement:
  "run L pre w = (None, w1) \<Longrightarrow> exec L s w1 = Inl e \<Longrightarrow> run L (pre @ s # post) w = (Some e, w1)"
  by (simp add: run_append)



lemma executed_all: "fst (run L prog w) = None \<Longrightarrow> executed L prog w = prog"
proof (induction prog arbitrary: w)
  case Nil
  then show ?case by simp
next
  case (Cons s prog)
  then show ?case
    by (cases "exec L s w") simp_all
qed







lemma get_fs_update [simp]:
  "get_frame (w\<lparr>fs := f\<rparr>) x = get_frame w x"
  "get_series (w\<lparr>fs := f\<rparr>) x = get_series w x"
  "get_column_var (w\<lparr>fs := f\<rparr>) x = get_column_var w x"
  "get_model (w\<lparr>fs := f\<rparr>) x = get_model w x"
  "get_callback (w\<lparr>fs := f\<rparr>) x = get_callback w x"
  "get_history (w\<lparr>fs := f\<rparr>) x = get_history w x"
  by (simp_all add: get_frame_def get_series_def get_column_var_def get_model_def
      get_callback_def get_history_def)

lemma get_callbacks_fs_update [simp]: "get_callbacks (w\<lparr>fs := f\<rparr>) xs = get_callbacks w xs"
  by (induction xs) simp_all







lemma missing_csv:
  assumes "fs w ''../data/red-wine.csv'' = None"
  shows "fst (run L (concat dropout_notebook) w) = Some (FileNotFoundError ''../data/red-wine.csv'')"
    and "fst (run L (concat early_stopping_notebook) w) = Some (FileNotFoundError ''../data/red-wine.csv'')"
  using assms
  by (simp_all add: dropout_notebook_def early_stopping_notebook_def dropout_data_cell_def
      early_stopping_data_cell_def load_and_split_def read_csv_def and_then_def
      assign_def emit_def touch_def batchnorm_after_snippet_def batchnorm_between_snippet_def)

lemma fit_failure:
  assumes "vars w m = Some (Model md)" "compiled md \<noteq> None"
    and "vars w X = Some (Frame dx)" "vars w y = Some (Column cy)"
    and "vars w Xv = Some (Frame dxv)" "vars w yv = Some (Column cyv)"
    and "get_callbacks w cbs = Inr cs"
    and "keras_fit L \<lparr>fit_model = md, fit_x = dx, fit_y = cy, fit_validation_data = (dxv, cyv),
           fit_batch_size = b, fit_epochs = n, fit_callbacks = cs\<rparr> = Inl e"
  shows "exec L (Fit h m X y (Xv, yv) b n cbs) w = Inl e"
  using assms
  by (auto simp: and_then_def get_model_def get_frame_def get_column_var_def)

text \<open>
  Claim C9: the notebooks handle no error themselves. The statement forms have no
  \<^verbatim>\<open>try\<close>, no \<^verbatim>\<open>raise\<close> and no class definition, and an exception of a run is, unchanged,
  the exception of the first statement that fails: the statements before it ran without
  one, nothing after it runs, and the state is the one the failing statement started
  from. What \<^verbatim>\<open>read_csv\<close> raises is what its statement raises; in both training
  notebooks a missing CSV file ends the run with \<^verbatim>\<open>FileNotFoundError\<close>; and what
  \<^verbatim>\<open>model.fit\<close> raises (on a shape mismatch, say) is what its statement raises.
\<close>

theorem failures_propagate_unchanged:
  "(run L prog w = (Some e, w') \<longrightarrow>
      (\<exists>pre s post. prog = pre @ s # post \<and> run L pre w = (None, w') \<and> exec L s w' = Inl e)) \<and>
   (run L pre w = (None, w1) \<and> exec L s w1 = Inl e \<longrightarrow>
      run L (pre @ s # post) w = (Some e, w1)) \<and>
   (read_csv L (fs w) p = Inl e \<longrightarrow> exec L (ReadCsv x p) w = Inl e) \<and>
   (\<forall>nb \<in> set training_notebooks.
      fs w ''../data/red-wine.csv'' = None \<longrightarrow>
      fst (run L (concat nb) w) = Some (FileNotFoundError ''../data/red-wine.csv'')) \<and>
   (vars w m = Some (Model md) \<and> compiled md \<noteq> None \<and>
    vars w X = Some (Frame dx) \<and> vars w y = Some (Column cy) \<and>
    vars w Xv = Some (Frame dxv) \<and> vars w yv = Some (Column cyv) \<and>
    get_callbacks w cbs = Inr cs \<and>
    keras_fit L \<lparr>fit_model = md, fit_x = dx, fit_y = cy, fit_validation_data = (dxv, cyv),
      fit_batch_size = b, fit_epochs = n, fit_callbacks = cs\<rparr> = Inl e \<longrightarrow>
      exec L (Fit h m X y (Xv, yv) b n cbs) w = Inl e)"
proof (intro conjI impI ballI)
  assume "run L prog w = (Some e, w')"
  then show "\<exists>pre s post. prog = pre @ s # post \<and> run L pre w = (None, w') \<and> exec L s w' = Inl e"
    by (rule run_Some_split)
next
  assume "run L pre w = (None, w1) \<and> exec L s w1 = Inl e"
  then show "run L (pre @ s # post) w = (Some e, w1)"
    by (simp add: run_failing_statement)
next
  assume "read_csv L (fs w) p = Inl e"
  then show "exec L (ReadCsv x p) w = Inl e"
    by (simp add: and_then_def)
next
  fix nb
  assume "nb \<in> set training_notebooks" "fs w ''../data/red-wine.csv'' = None"
  then show "fst (run L (concat nb) w) = Some (FileNotFoundError ''../data/red-wine.csv'')"
    using missing_csv [of w L] by (auto simp: training_notebooks_def)
next
  assume "vars w m = Some (Model md) \<and> compiled md \<noteq> None \<and>
    vars w X = Some (Frame dx) \<and> vars w y = Some (Column cy) \<and>
    vars w Xv = Some (Frame dxv) \<and> vars w yv = Some (Column cyv) \<and>
    get_callbacks w cbs = Inr cs \<and>
    keras_fit L \<lparr>fit_model = md, fit_x = dx, fit_y = cy, fit_validation_data = (dxv, cyv),
      fit_batch_size = b, fit_epochs = n, fit_callbacks = cs\<rparr> = Inl e"
  then show "exec L (Fit h m X y (Xv, yv) b n cbs) w = Inl e"
    by (elim conjE) (rule fit_failure)
qed

theorem failures_propagate_unchanged_witness:
  "early_stopping_notebook \<in> set training_notebooks \<and>
   fs (demo_world\<lparr>fs := Map.empty\<rparr>) ''../data/red-wine.csv'' = None \<and>
   fst (run demo_lib (concat early_stopping_notebook) (demo_world\<lparr>fs := Map.empty\<rparr>))
     = Some (FileNotFoundError ''../data/red-wine.csv'') \<and>
   fst (run shape_mismatch_lib (concat early_stopping_notebook) demo_world)
     = Some (ValueError ''Input 0 of layer sequential is incompatible with the layer'') \<and>
   (\<exists>pre s post.
      concat early_stopping_notebook = pre @ s # post \<and>
      run shape_mismatch_lib pre demo_world
        = (None, snd (run shape_mismatch_lib (concat early_stopping_notebook) demo_world)) \<and>
      exec shape_mismatch_lib s (snd (run shape_mismatch_lib (concat early_stopping_notebook) demo_world))
        = Inl (ValueError ''Input 0 of layer sequential is incompatible with the layer''))"
proof -
  have a: "early_stopping_notebook \<in> set training_notebooks"
    by (simp add: training_notebooks_def)
  have b: "fs (demo_world\<lparr>fs := Map.empty\<rparr>) ''../data/red-wine.csv'' = None"
    by simp
  have c: "fst (run shape_mismatch_lib (concat early_stopping_notebook) demo_world)
     = Some (ValueError ''Input 0 of layer sequential is incompatible with the layer'')"
    by (rule demo_runs(4))
  then have d: "run shape_mismatch_lib (concat early_stopping_notebook) demo_world
     = (Some (ValueError ''Input 0 of layer sequential is incompatible with the layer''),
        snd (run shape_mismatch_lib (concat early_stopping_notebook) demo_world))"
    by (simp add: prod_eq_iff)
  note t1 = failures_propagate_unchanged
    [of demo_lib "concat early_stopping_notebook" "demo_world\<lparr>fs := Map.empty\<rparr>"]
  note t2 = failures_propagate_unchanged
    [of shape_mismatch_lib "concat early_stopping_notebook" demo_world
      "ValueError ''Input 0 of layer sequential is incompatible with the layer''"
      "snd (run shape_mismatch_lib (concat early_stopping_notebook) demo_world)"]
  from t1 [THEN conjunct2, THEN conjunct2, THEN conjunct2, THEN conjunct1] a b have e: "fst (run demo_lib (concat early_stopping_notebook) (demo_world\<lparr>fs := Map.empty\<rparr>))
     = Some (FileNotFoundError ''../data/red-wine.csv'')"
    by blast
  from t2 [THEN conjunct1] d have f: "\<exists>pre s post.
      concat early_stopping_notebook = pre @ s # post \<and>
      run shape_mismatch_lib pre demo_world
        = (None, snd (run shape_mismatch_lib (concat early_stopping_notebook) demo_world)) \<and>
      exec shape_mismatch_lib s (snd (run shape_mismatch_lib (concat early_stopping_notebook) demo_world))
        = Inl (ValueError ''Input 0 of layer sequential is incompatible with the layer'')"
    by blast
  from a b c e f show ?thesis
    by blast
qed

section \<open>The steps of a training notebook\<close>

lemma training_steps:
  "steps (concat dropout_notebook) = [Construct, Load, Split, Construct, Train, Plot]"
  "steps (concat early_stopping_notebook)
     = [Construct, Load, Split, Other, Split, Construct, Train, Plot, Other]"
  by (simp_all add: steps_def dropout_notebook_def early_stopping_notebook_def
      dropout_data_cell_def early_stopping_data_cell_def load_and_split_def split_step_def
      scale_step_def features_and_target_def batchnorm_after_snippet_def
      batchnorm_between_snippet_def)

text \<open>
  Claim C4, as the specification states it: each training notebook executes exactly the
  five steps, with no custom logic between them. In the early stopping notebook the
  statement \<^verbatim>\<open>df_train = (df_train - min_) / (max_ - min_)\<close> stands between the split
  and the construction of the fitted model; it is arithmetic of the notebook's own, and
  the steps of the notebook are not the five steps.
\<close>

theorem pipeline_has_other_steps:
  "early_stopping_notebook \<in> set training_notebooks \<and>
   steps (concat early_stopping_notebook) \<noteq> five_steps \<and>
   concat early_stopping_notebook ! 12 = DropIndexOf ''df_valid'' ''red_wine'' ''df_train'' \<and>
   step_of (concat early_stopping_notebook ! 12) = Split \<and>
   concat early_stopping_notebook ! 16 = Rescale ''df_train'' ''df_train'' ''min_'' ''max_'' \<and>
   step_of (concat early_stopping_notebook ! 16) = Other \<and>
   concat early_stopping_notebook ! 25 = Sequential (Some ''model'') early_stopping_model \<and>
   step_of (concat early_stopping_notebook ! 25) = Construct"
  by (simp add: training_steps five_steps_def training_notebooks_def)
    (simp add: early_stopping_notebook_def early_stopping_data_cell_def load_and_split_def
      split_step_def scale_step_def features_and_target_def)

text \<open>
  Claim C4, amended: each training notebook executes the five steps in this order (load
  the CSV from the relative path \<^verbatim>\<open>'../data/red-wine.csv'\<close>, split, construct, fit,
  plot) as a subsequence of its steps, and a run without an exception executes every
  statement in the order of the cells. They are not the only steps: the dropout
  notebook constructs example layers before it loads the data, and the early stopping
  notebook constructs the capacity examples and the callback before the load, displays
  training rows and rescales both frames between the split and the separation of
  features and target, and prints the minimum validation loss after the plot.
\<close>

theorem pipeline_steps_in_order:
  "(\<forall>nb \<in> set training_notebooks.
      subseq five_steps (steps (concat nb)) \<and>
      ReadCsv ''red_wine'' ''../data/red-wine.csv'' \<in> set (concat nb) \<and>
      (fst (run L (concat nb) w) = None \<longrightarrow> executed L (concat nb) w = concat nb)) \<and>
   steps (concat dropout_notebook) = [Construct, Load, Split, Construct, Train, Plot] \<and>
   steps (concat early_stopping_notebook)
     = [Construct, Load, Split, Other, Split, Construct, Train, Plot, Other]"
proof -
  have a: "subseq five_steps (steps (concat dropout_notebook))"
    "subseq five_steps (steps (concat early_stopping_notebook))"
    by (simp_all add: training_steps five_steps_def)
  have b: "ReadCsv ''red_wine'' ''../data/red-wine.csv'' \<in> set (concat dropout_notebook)"
    "ReadCsv ''red_wine'' ''../data/red-wine.csv'' \<in> set (concat early_stopping_notebook)"
    by (simp_all add: dropout_notebook_def early_stopping_notebook_def dropout_data_cell_def
        early_stopping_data_cell_def load_and_split_def batchnorm_after_snippet_def
        batchnorm_between_snippet_def)
  from a b executed_all [of L _ w] training_steps show ?thesis
    by (auto simp: training_notebooks_def)
qed

theorem pipeline_steps_in_order_witness:
  "early_stopping_notebook \<in> set training_notebooks \<and>
   subseq five_steps (steps (concat early_stopping_notebook)) \<and>
   ReadCsv ''red_wine'' ''../data/red-wine.csv'' \<in> set (concat early_stopping_notebook) \<and>
   fst (run demo_lib (concat early_stopping_notebook) demo_world) = None \<and>
   executed demo_lib (concat early_stopping_notebook) demo_world = concat early_stopping_notebook"
proof -
  have a: "early_stopping_notebook \<in> set training_notebooks"
    by (simp add: training_notebooks_def)
  have b: "fst (run demo_lib (concat early_stopping_notebook) demo_world) = None"
    by (rule demo_runs(3))
  from pipeline_steps_in_order [of demo_lib demo_world] a b show ?thesis
    by blast
qed

end
